theory Spec2Isabelle
  imports Complex_Main "HOL-Library.AList"
begin

section \<open>Python values\<close>

text \<open>
  A Python \<open>str\<close> is a sequence of Unicode code points; it is modelled as a list of
  natural numbers, one per code point.  Source literals are written with \<open>lit\<close>, which
  maps an ASCII literal to its code points.
\<close>

type_synonym pystr = "nat list"

definition lit :: "string \<Rightarrow> pystr" where
  "lit s = map of_char s"

text \<open>
  The values a slide dictionary holds (\<open>Dict[str, Any]\<close> in the source) are drawn from
  \<open>None\<close>, \<open>int\<close>, \<open>str\<close>, \<open>list\<close>, \<open>tuple\<close> and \<open>dict\<close> with string keys.  A
  dictionary is an association list in insertion order.
\<close>

datatype pyval =
    VNone
  | VInt int
  | VStr pystr
  | VList "pyval list"
  | VTuple "pyval list"
  | VDict "(pystr \<times> pyval) list"

type_synonym pydict = "(pystr \<times> pyval) list"

datatype exn = IndexError | KeyError | TypeError | ValueError | ZeroDivisionError | ExternalError

text \<open>\<open>d.get(k)\<close>, \<open>k in d\<close>, \<open>d[k]\<close> and \<open>d[k] = v\<close>.\<close>

definition dict_get :: "pydict \<Rightarrow> pystr \<Rightarrow> pyval option" where
  "dict_get d k = map_of d k"

definition dict_get_default :: "pydict \<Rightarrow> pystr \<Rightarrow> pyval \<Rightarrow> pyval" where
  "dict_get_default d k dflt = (case map_of d k of None \<Rightarrow> dflt | Some v \<Rightarrow> v)"

definition dict_contains :: "pydict \<Rightarrow> pystr \<Rightarrow> bool" where
  "dict_contains d k = (map_of d k \<noteq> None)"

definition dict_getitem :: "pydict \<Rightarrow> pystr \<Rightarrow> exn + pyval" where
  "dict_getitem d k = (case map_of d k of None \<Rightarrow> Inl KeyError | Some v \<Rightarrow> Inr v)"

definition dict_set :: "pydict \<Rightarrow> pystr \<Rightarrow> pyval \<Rightarrow> pydict" where
  "dict_set d k v = AList.update k v d"

definition bindE :: "exn + 'a \<Rightarrow> ('a \<Rightarrow> exn + 'b) \<Rightarrow> exn + 'b" where
  "bindE m f = (case m of Inl e \<Rightarrow> Inl e | Inr x \<Rightarrow> f x)"

section \<open>String operations of the Python runtime\<close>

text \<open>
  \<open>str.isspace\<close> on one code point: the white-space code points of Unicode that
  \<open>str.strip()\<close> and \<open>str.split()\<close> use.
\<close>

definition isspace :: "nat \<Rightarrow> bool" where
  "isspace c \<longleftrightarrow>
     (9 \<le> c \<and> c \<le> 13) \<or> (28 \<le> c \<and> c \<le> 32) \<or> c = 133 \<or> c = 160 \<or> c = 5760 \<or>
     (8192 \<le> c \<and> c \<le> 8202) \<or> c = 8232 \<or> c = 8233 \<or> c = 8239 \<or> c = 8287 \<or> c = 12288"

definition py_strip :: "pystr \<Rightarrow> pystr" where
  "py_strip s = rev (dropWhile isspace (rev (dropWhile isspace s)))"

text \<open>\<open>s.split('\n')\<close>: the pieces between line feeds (code point 10); never empty.\<close>

fun split_nl :: "pystr \<Rightarrow> pystr list" where
  "split_nl [] = [[]]"
| "split_nl (c # cs) =
     (if c = 10 then [] # split_nl cs
      else (case split_nl cs of [] \<Rightarrow> [[c]] | l # ls \<Rightarrow> (c # l) # ls))"

text \<open>\<open>s.split()\<close>: the maximal runs of non-space code points; \<open>w\<close> is the run being read.\<close>

fun split_ws_from :: "pystr \<Rightarrow> pystr \<Rightarrow> pystr list" where
  "split_ws_from w [] = (if w = [] then [] else [w])"
| "split_ws_from w (c # cs) =
     (if isspace c then (if w = [] then split_ws_from [] cs else w # split_ws_from [] cs)
      else split_ws_from (w @ [c]) cs)"

definition split_ws :: "pystr \<Rightarrow> pystr list" where
  "split_ws s = split_ws_from [] s"

definition startswith :: "pystr \<Rightarrow> pystr \<Rightarrow> bool" where
  "startswith s p = (take (length p) s = p)"

fun py_join :: "pystr \<Rightarrow> pystr list \<Rightarrow> pystr" where
  "py_join sep [] = []"
| "py_join sep [x] = x"
| "py_join sep (x # y # ys) = x @ sep @ py_join sep (y # ys)"

text \<open>
  \<open>str.upper()\<close> maps each code point to its upper-case expansion.  On ASCII that is
  \<open>a..z\<close> to \<open>A..Z\<close>; beyond ASCII it is the case table of the Unicode database, which
  is a parameter here (\<open>upper_ext\<close>), as is \<open>str.isprintable\<close> beyond ASCII
  (\<open>printable_ext\<close>), which \<open>repr\<close> consults.
\<close>

record unicode_db =
  upper_ext :: "nat \<Rightarrow> nat list"
  printable_ext :: "nat \<Rightarrow> bool"

definition upper_cp :: "unicode_db \<Rightarrow> nat \<Rightarrow> nat list" where
  "upper_cp U c =
     (if c < 128 then (if 97 \<le> c \<and> c \<le> 122 then [c - 32] else [c]) else upper_ext U c)"

definition py_upper :: "unicode_db \<Rightarrow> pystr \<Rightarrow> pystr" where
  "py_upper U s = concat (map (upper_cp U) s)"

subsection \<open>\<open>str()\<close> and \<open>repr()\<close>\<close>

definition digit_cp :: "nat \<Rightarrow> nat" where
  "digit_cp d = (if d < 10 then 48 + d else 87 + d)"

fun dec_nat :: "nat \<Rightarrow> pystr" where
  "dec_nat n = (if n < 10 then [digit_cp n] else dec_nat (n div 10) @ [digit_cp (n mod 10)])"

declare dec_nat.simps [simp del]

text \<open>\<open>dec_int\<close>: the decimal form of an integer, with its sign.\<close>

definition dec_int :: "int \<Rightarrow> pystr" where
  "dec_int i = (if i < 0 then 45 # dec_nat (nat (- i)) else dec_nat (nat i))"

text \<open>
  Converting an \<open>int\<close> to its decimal string (\<open>str\<close>, \<open>repr\<close>, an f-string placeholder)
  raises \<open>ValueError\<close> when the number has more digits than the interpreter's limit for
  integer string conversion, 4300 by default; the sign does not count.  \<open>str_int\<close> is that
  conversion.  A length (\<open>len\<close>) and a valid position of a list are at most
  \<open>sys.maxsize\<close>, nineteen digits, so their conversion cannot raise: they are rendered
  with \<open>dec_int\<close> directly.
\<close>

definition int_max_str_digits :: nat where
  "int_max_str_digits = 4300"

definition num_digits :: "int \<Rightarrow> nat" where
  "num_digits i = length (dec_nat (nat \<bar>i\<bar>))"

definition str_int :: "int \<Rightarrow> exn + pystr" where
  "str_int i = (if num_digits i > int_max_str_digits then Inl ValueError else Inr (dec_int i))"

text \<open>
  The results of evaluating a sequence of items from left to right: the first exception
  ends the evaluation.
\<close>

fun sequenceE :: "(exn + 'a) list \<Rightarrow> exn + 'a list" where
  "sequenceE [] = Inr []"
| "sequenceE (r # rs) = bindE r (\<lambda>x. bindE (sequenceE rs) (\<lambda>xs. Inr (x # xs)))"

text \<open>\<open>hex_fixed w n\<close>: the \<open>w\<close> lowest hexadecimal digits of \<open>n\<close>, lower case.\<close>

fun hex_fixed :: "nat \<Rightarrow> nat \<Rightarrow> pystr" where
  "hex_fixed 0 n = []"
| "hex_fixed (Suc w) n = hex_fixed w (n div 16) @ [digit_cp (n mod 16)]"

text \<open>
  \<open>repr\<close> of a string: single quotes unless the string has a single quote and no
  double quote; the quote and the backslash are escaped, tab, line feed and carriage
  return are written \<open>\t\<close>, \<open>\n\<close>, \<open>\r\<close>, and every other code point that is not
  printable as \<open>\xhh\<close>, \<open>\uhhhh\<close> or \<open>\Uhhhhhhhh\<close>.
\<close>

definition repr_quote :: "pystr \<Rightarrow> nat" where
  "repr_quote s = (if 39 \<in> set s \<and> 34 \<notin> set s then 34 else 39)"

definition repr_escape :: "nat \<Rightarrow> pystr" where
  "repr_escape c =
     (if c \<le> 255 then [92, 120] @ hex_fixed 2 c
      else if c \<le> 65535 then [92, 117] @ hex_fixed 4 c
      else [92, 85] @ hex_fixed 8 c)"

definition repr_cp :: "unicode_db \<Rightarrow> nat \<Rightarrow> nat \<Rightarrow> pystr" where
  "repr_cp U q c =
     (if c = q \<or> c = 92 then [92, c]
      else if c = 9 then [92, 116]
      else if c = 10 then [92, 110]
      else if c = 13 then [92, 114]
      else if c < 32 \<or> c = 127 then repr_escape c
      else if c < 127 then [c]
      else if printable_ext U c then [c] else repr_escape c)"

definition repr_str :: "unicode_db \<Rightarrow> pystr \<Rightarrow> pystr" where
  "repr_str U s = (let q = repr_quote s in [q] @ concat (map (repr_cp U q) s) @ [q])"

fun py_repr :: "unicode_db \<Rightarrow> pyval \<Rightarrow> exn + pystr" where
  "py_repr U VNone = Inr (lit ''None'')"
| "py_repr U (VInt i) = str_int i"
| "py_repr U (VStr s) = Inr (repr_str U s)"
| "py_repr U (VList xs) =
     bindE (sequenceE (map (py_repr U) xs)) (\<lambda>rs.
       Inr (lit ''['' @ py_join (lit '', '') rs @ lit '']''))"
| "py_repr U (VTuple xs) =
     bindE (sequenceE (map (py_repr U) xs)) (\<lambda>rs.
       Inr (case rs of
              [r] \<Rightarrow> lit ''('' @ r @ lit '',)''
            | _ \<Rightarrow> lit ''('' @ py_join (lit '', '') rs @ lit '')''))"
| "py_repr U (VDict kvs) =
     bindE (sequenceE
              (map (\<lambda>kv. bindE (py_repr U (snd kv)) (\<lambda>r.
                           Inr (repr_str U (fst kv) @ lit '': '' @ r))) kvs))
       (\<lambda>rs. Inr (lit ''{'' @ py_join (lit '', '') rs @ lit ''}''))"

text \<open>
  \<open>str(x)\<close>, also what an f-string placeholder \<open>{x}\<close> renders.  Both \<open>repr\<close> and \<open>str\<close>
  raise the \<open>ValueError\<close> of an integer beyond the digit limit, wherever in the value it
  occurs.  The interpreter's recursion limit, which the \<open>repr\<close> of a very deeply nested
  value exceeds, is not modelled: results on \<open>str\<close> of arbitrary values are therefore
  stated for the case that it returns.
\<close>

definition py_str :: "unicode_db \<Rightarrow> pyval \<Rightarrow> exn + pystr" where
  "py_str U v = (case v of VStr s \<Rightarrow> Inr s | _ \<Rightarrow> py_repr U v)"

section \<open>Logging\<close>

text \<open>
  Every component reports through \<open>logging\<close>.  A record is its level and its rendered
  message; a function that logs returns the records it emitted, and the agent collects
  them in its state.
\<close>

datatype level = INFO | ERROR

type_synonym log_entry = "level \<times> pystr"

section \<open>Slide generator (\<open>slide_generator.py\<close>)\<close>

definition load_templates :: pydict where
  "load_templates =
     [(lit ''title'', VDict [(lit ''layout'', VStr (lit ''title_slide'')),
                            (lit ''content_type'', VStr (lit ''text''))]),
      (lit ''content'', VDict [(lit ''layout'', VStr (lit ''bullet_points'')),
                              (lit ''content_type'', VStr (lit ''text''))]),
      (lit ''chart'', VDict [(lit ''layout'', VStr (lit ''chart_slide'')),
                            (lit ''content_type'', VStr (lit ''visualization''))]),
      (lit ''comparison'', VDict [(lit ''layout'', VStr (lit ''two_column'')),
                                 (lit ''content_type'', VStr (lit ''text''))])]"

text \<open>The subscript \<open>v[k]\<close> on a value, and \<open>slide_templates[name]['layout']\<close>.\<close>

definition py_getitem :: "pyval \<Rightarrow> pystr \<Rightarrow> exn + pyval" where
  "py_getitem v k = (case v of VDict d \<Rightarrow> dict_getitem d k | _ \<Rightarrow> Inl TypeError)"

definition template_layout :: "pystr \<Rightarrow> exn + pyval" where
  "template_layout name =
     bindE (dict_getitem load_templates name) (\<lambda>t. py_getitem t (lit ''layout''))"

text \<open>
  The loop of \<open>_parse_section_to_slide\<close> over \<open>lines[1:]\<close>: a trimmed line is kept when
  it is not empty and does not start with \<open>#\<close>.
\<close>

fun bullet_loop :: "pystr list \<Rightarrow> pystr list \<Rightarrow> pystr list" where
  "bullet_loop bullet_points [] = bullet_points"
| "bullet_loop bullet_points (l # ls) =
     (let line = py_strip l in
      if line \<noteq> [] \<and> \<not> startswith line (lit ''#'')
      then bullet_loop (bullet_points @ [line]) ls
      else bullet_loop bullet_points ls)"

definition parse_section_to_slide :: "pystr \<Rightarrow> int \<Rightarrow> exn + pydict" where
  "parse_section_to_slide section slide_id =
     (case split_nl (py_strip section) of
        [] \<Rightarrow> Inl IndexError
      | first # rest \<Rightarrow>
          (let title = py_strip first;
               bullet_points = bullet_loop [] rest
           in bindE (template_layout (lit ''content'')) (\<lambda>layout.
                Inr [(lit ''id'', VInt slide_id),
                     (lit ''title'', VStr title),
                     (lit ''type'', VStr (lit ''content'')),
                     (lit ''content'',
                        VDict [(lit ''heading'', VStr title),
                               (lit ''bullet_points'',
                                  VList (map VStr (if bullet_points \<noteq> [] then bullet_points
                                                   else [section])))]),
                     (lit ''layout'', layout)])))"

text \<open>The loop \<open>for i, section in enumerate(sections, 1)\<close>.\<close>

fun section_loop :: "pydict list \<Rightarrow> int \<Rightarrow> pystr list \<Rightarrow> exn + pydict list" where
  "section_loop sl i [] = Inr sl"
| "section_loop sl i (section # rest) =
     bindE (parse_section_to_slide section i) (\<lambda>slide.
       section_loop (sl @ [slide]) (i + 1) rest)"

definition generate_slides_from_text ::
  "pystr \<Rightarrow> pystr list \<Rightarrow> exn + (pydict list \<times> log_entry list)" where
  "generate_slides_from_text title sections =
     bindE (template_layout (lit ''title'')) (\<lambda>layout.
       let title_slide =
             [(lit ''id'', VInt 0),
              (lit ''title'', VStr title),
              (lit ''type'', VStr (lit ''title'')),
              (lit ''content'',
                 VDict [(lit ''heading'', VStr title),
                        (lit ''subheading'', VStr (lit ''Auto-generated Presentation''))]),
              (lit ''layout'', layout)]
       in bindE (section_loop [title_slide] 1 sections) (\<lambda>sl.
            Inr (sl,
                 [(INFO, lit ''Generated '' @ dec_int (int (length sl)) @ lit '' slides from '' @
                         dec_int (int (length sections)) @ lit '' sections'')])))"

text \<open>Iterating a value with \<open>for\<close>: \<open>None\<close> and integers are not iterable.\<close>

definition py_iter :: "pyval \<Rightarrow> exn + pyval list" where
  "py_iter v =
     (case v of
        VList xs \<Rightarrow> Inr xs
      | VTuple xs \<Rightarrow> Inr xs
      | VStr s \<Rightarrow> Inr (map (\<lambda>c. VStr [c]) s)
      | VDict d \<Rightarrow> Inr (map (\<lambda>kv. VStr (fst kv)) d)
      | _ \<Rightarrow> Inl TypeError)"

definition generate_speaker_notes :: "unicode_db \<Rightarrow> pydict \<Rightarrow> exn + pystr" where
  "generate_speaker_notes U slide =
     bindE (case dict_get slide (lit ''title'') of
              Some t \<Rightarrow> bindE (py_str U t) (\<lambda>ts. Inr [lit ''Slide: '' @ ts @ [10]])
            | None \<Rightarrow> Inr [])
       (\<lambda>notes0.
          let content = dict_get_default slide (lit ''content'') (VDict [])
          in bindE (case content of
                      VDict c \<Rightarrow>
                        (case dict_get c (lit ''bullet_points'') of
                           Some bp \<Rightarrow>
                             bindE (py_iter bp) (\<lambda>points.
                               bindE (sequenceE
                                        (map (\<lambda>point. bindE (py_str U point) (\<lambda>p.
                                                        Inr (lit ''  - '' @ p))) points))
                                 (\<lambda>lines.
                                    Inr (notes0 @ [lit ''Key points to discuss:''] @ lines)))
                         | None \<Rightarrow> Inr notes0)
                    | _ \<Rightarrow> Inr notes0)
               (\<lambda>notes1.
                  let notes2 =
                        (if dict_contains slide (lit ''chart'')
                         then notes1 @
                              [10 # lit ''Chart/Visualization: Present and explain the data trends.'']
                         else notes1)
                  in Inr (py_join [10] notes2)))"

definition validate_slide :: "pydict \<Rightarrow> bool" where
  "validate_slide slide =
     list_all (dict_contains slide)
       [lit ''id'', lit ''title'', lit ''type'', lit ''content'', lit ''layout'']"

subsection \<open>Statistics\<close>

text \<open>
  A dictionary key must be hashable: lists and dictionaries are not, a tuple is when its
  items are.  On hashable values of this model Python's \<open>==\<close> is structural equality.
\<close>

fun hashable :: "pyval \<Rightarrow> bool" where
  "hashable VNone = True"
| "hashable (VInt i) = True"
| "hashable (VStr s) = True"
| "hashable (VList xs) = False"
| "hashable (VTuple xs) = (\<forall>x \<in> set xs. hashable x)"
| "hashable (VDict d) = False"

text \<open>
  A number of the result: the \<open>int\<close> \<open>0\<close> of the guarded branch, or the \<open>float\<close> of a
  true division, kept as the exact quotient (the float is the double nearest to it).
\<close>

datatype pynum = PyInt int | PyFloat rat

definition py_truediv :: "int \<Rightarrow> int \<Rightarrow> exn + pynum" where
  "py_truediv a b = (if b = 0 then Inl ZeroDivisionError else Inr (PyFloat (of_int a / of_int b)))"

record statistics =
  total_slides :: int
  slide_types :: "(pyval \<times> int) list"
  average_content_length :: pynum

definition content_words :: "unicode_db \<Rightarrow> pydict \<Rightarrow> exn + int" where
  "content_words U slide =
     bindE (py_str U (dict_get_default slide (lit ''content'') (VStr []))) (\<lambda>content.
       Inr (int (length (split_ws content))))"

fun stats_loop ::
  "unicode_db \<Rightarrow> (pyval \<times> int) list \<Rightarrow> int \<Rightarrow> pydict list \<Rightarrow> exn + ((pyval \<times> int) list \<times> int)" where
  "stats_loop U types total_content_length [] = Inr (types, total_content_length)"
| "stats_loop U types total_content_length (slide # rest) =
     (let slide_type = dict_get_default slide (lit ''type'') (VStr (lit ''unknown''))
      in if \<not> hashable slide_type then Inl TypeError
         else bindE (content_words U slide) (\<lambda>words.
                stats_loop U
                  (AList.update slide_type
                     ((case map_of types slide_type of None \<Rightarrow> 0 | Some n \<Rightarrow> n) + 1) types)
                  (total_content_length + words)
                  rest))"

definition get_slide_statistics :: "unicode_db \<Rightarrow> pydict list \<Rightarrow> exn + statistics" where
  "get_slide_statistics U sl =
     (let n = int (length sl)
      in bindE (stats_loop U [] 0 sl) (\<lambda>(types, total_content_length).
           bindE (if n > 0 then py_truediv total_content_length n else Inr (PyInt 0)) (\<lambda>avg.
             Inr \<lparr>total_slides = n, slide_types = types, average_content_length = avg\<rparr>)))"

section \<open>Layout suggester (\<open>layout_suggester.py\<close>)\<close>

definition load_layouts :: pydict where
  "load_layouts =
     [(lit ''title_slide'',
        VDict [(lit ''name'', VStr (lit ''Title Slide'')),
               (lit ''description'', VStr (lit ''Large title and subtitle'')),
               (lit ''elements'', VList [VStr (lit ''title''), VStr (lit ''subtitle'')]),
               (lit ''zones'',
                  VDict [(lit ''title'', VDict [(lit ''position'', VStr (lit ''top'')), (lit ''size'', VStr (lit ''large''))]),
                         (lit ''subtitle'', VDict [(lit ''position'', VStr (lit ''center'')), (lit ''size'', VStr (lit ''medium''))])])]),
      (lit ''bullet_points'',
        VDict [(lit ''name'', VStr (lit ''Bullet Points'')),
               (lit ''description'', VStr (lit ''Title with bullet points'')),
               (lit ''elements'', VList [VStr (lit ''title''), VStr (lit ''bullet_points'')]),
               (lit ''zones'',
                  VDict [(lit ''title'', VDict [(lit ''position'', VStr (lit ''top'')), (lit ''size'', VStr (lit ''medium''))]),
                         (lit ''content'', VDict [(lit ''position'', VStr (lit ''center'')), (lit ''size'', VStr (lit ''large''))])])]),
      (lit ''chart_slide'',
        VDict [(lit ''name'', VStr (lit ''Chart/Visualization'')),
               (lit ''description'', VStr (lit ''Title with chart or image'')),
               (lit ''elements'', VList [VStr (lit ''title''), VStr (lit ''chart'')]),
               (lit ''zones'',
                  VDict [(lit ''title'', VDict [(lit ''position'', VStr (lit ''top'')), (lit ''size'', VStr (lit ''small''))]),
                         (lit ''chart'', VDict [(lit ''position'', VStr (lit ''center'')), (lit ''size'', VStr (lit ''large''))])])]),
      (lit ''two_column'',
        VDict [(lit ''name'', VStr (lit ''Two Column'')),
               (lit ''description'', VStr (lit ''Title with two columns of content'')),
               (lit ''elements'', VList [VStr (lit ''title''), VStr (lit ''left_column''), VStr (lit ''right_column'')]),
               (lit ''zones'',
                  VDict [(lit ''title'', VDict [(lit ''position'', VStr (lit ''top'')), (lit ''size'', VStr (lit ''small''))]),
                         (lit ''left'', VDict [(lit ''position'', VStr (lit ''left'')), (lit ''size'', VStr (lit ''medium''))]),
                         (lit ''right'', VDict [(lit ''position'', VStr (lit ''right'')), (lit ''size'', VStr (lit ''medium''))])])]),
      (lit ''image_and_text'',
        VDict [(lit ''name'', VStr (lit ''Image and Text'')),
               (lit ''description'', VStr (lit ''Image on one side, text on the other'')),
               (lit ''elements'', VList [VStr (lit ''title''), VStr (lit ''image''), VStr (lit ''text'')]),
               (lit ''zones'',
                  VDict [(lit ''title'', VDict [(lit ''position'', VStr (lit ''top'')), (lit ''size'', VStr (lit ''small''))]),
                         (lit ''image'', VDict [(lit ''position'', VStr (lit ''left'')), (lit ''size'', VStr (lit ''large''))]),
                         (lit ''text'', VDict [(lit ''position'', VStr (lit ''right'')), (lit ''size'', VStr (lit ''large''))])])]),
      (lit ''blank'',
        VDict [(lit ''name'', VStr (lit ''Blank'')),
               (lit ''description'', VStr (lit ''Completely blank slide'')),
               (lit ''elements'', VList []),
               (lit ''zones'',
                  VDict [])])]"

definition suggest_layout :: "pydict \<Rightarrow> pystr" where
  "suggest_layout slide =
     (let slide_type = dict_get_default slide (lit ''type'') (VStr (lit ''content''));
          content = dict_get_default slide (lit ''content'') (VDict [])
      in if slide_type = VStr (lit ''title'') then lit ''title_slide''
         else if dict_contains slide (lit ''chart'') then lit ''chart_slide''
         else (case content of
                 VDict c \<Rightarrow>
                   if dict_contains c (lit ''left_column'') \<and> dict_contains c (lit ''right_column'')
                   then lit ''two_column''
                   else if dict_contains c (lit ''image'') \<and> dict_contains c (lit ''text'')
                   then lit ''image_and_text''
                   else if dict_contains c (lit ''bullet_points'')
                   then lit ''bullet_points''
                   else lit ''bullet_points''
               | _ \<Rightarrow> lit ''bullet_points''))"

definition get_layout_details :: "pystr \<Rightarrow> pyval option" where
  "get_layout_details layout_name = dict_get load_layouts layout_name"

definition get_available_layouts :: "pystr list" where
  "get_available_layouts = map fst load_layouts"

section \<open>Chart generator (\<open>chart_generator.py\<close>)\<close>

datatype ChartType = BAR | LINE | PIE | SCATTER | HISTOGRAM | BOX | AREA

fun ChartType_value :: "ChartType \<Rightarrow> pystr" where
  "ChartType_value BAR = lit ''bar''"
| "ChartType_value LINE = lit ''line''"
| "ChartType_value PIE = lit ''pie''"
| "ChartType_value SCATTER = lit ''scatter''"
| "ChartType_value HISTOGRAM = lit ''histogram''"
| "ChartType_value BOX = lit ''box''"
| "ChartType_value AREA = lit ''area''"

text \<open>\<open>ChartType[name]\<close>: the member of that name, or \<open>KeyError\<close>.\<close>

definition ChartType_members :: "(pystr \<times> ChartType) list" where
  "ChartType_members =
     [(lit ''BAR'', BAR), (lit ''LINE'', LINE), (lit ''PIE'', PIE), (lit ''SCATTER'', SCATTER),
      (lit ''HISTOGRAM'', HISTOGRAM), (lit ''BOX'', BOX), (lit ''AREA'', AREA)]"

definition ChartType_getitem :: "pystr \<Rightarrow> exn + ChartType" where
  "ChartType_getitem name =
     (case map_of ChartType_members name of None \<Rightarrow> Inl KeyError | Some m \<Rightarrow> Inr m)"

definition load_chart_styles :: pydict where
  "load_chart_styles =
     [(lit ''default'',
        VDict [(lit ''colors'', VList [VStr (lit ''#1f77b4''), VStr (lit ''#ff7f0e''), VStr (lit ''#2ca02c''), VStr (lit ''#d62728''), VStr (lit ''#9467bd'')]),
               (lit ''font_size'', VInt 12),
               (lit ''dpi'', VInt 100),
               (lit ''figsize'', VTuple [VInt 10, VInt 6])]),
      (lit ''business'',
        VDict [(lit ''colors'', VList [VStr (lit ''#003366''), VStr (lit ''#006699''), VStr (lit ''#0099cc''), VStr (lit ''#00ccff''), VStr (lit ''#ccffff'')]),
               (lit ''font_size'', VInt 14),
               (lit ''dpi'', VInt 150),
               (lit ''figsize'', VTuple [VInt 12, VInt 7])]),
      (lit ''minimal'',
        VDict [(lit ''colors'', VList [VStr (lit ''#000000''), VStr (lit ''#404040''), VStr (lit ''#808080''), VStr (lit ''#c0c0c0''), VStr (lit ''#ffffff'')]),
               (lit ''font_size'', VInt 11),
               (lit ''dpi'', VInt 100),
               (lit ''figsize'', VTuple [VInt 10, VInt 6])])]"

text \<open>
  \<open>generate_chart\<close> returns the chart dictionary and the records it logged.  The
  \<open>KeyError\<close> of the enum lookup is caught there: the result is then the empty
  dictionary.
\<close>

definition generate_chart ::
  "unicode_db \<Rightarrow> pystr \<Rightarrow> pyval \<Rightarrow> pystr \<Rightarrow> pystr \<Rightarrow> pydict \<Rightarrow> exn + (pydict \<times> log_entry list)" where
  "generate_chart U chart_type data theme title kwargs =
     (case ChartType_getitem (py_upper U chart_type) of
        Inl e \<Rightarrow>
          (if e = KeyError
           then Inr ([], [(ERROR, lit ''Unsupported chart type: '' @ chart_type)])
           else Inl e)
      | Inr chart_enum \<Rightarrow>
          bindE (dict_getitem load_chart_styles (lit ''default'')) (\<lambda>default_style.
            let style = dict_get_default load_chart_styles theme default_style;
                chart_config =
                  [(lit ''type'', VStr chart_type),
                   (lit ''title'', VStr title),
                   (lit ''data'', data),
                   (lit ''theme'', VStr theme),
                   (lit ''style'', style),
                   (lit ''kwargs'', VDict kwargs)]
            in Inr (chart_config,
                    [(INFO, lit ''Generated '' @ chart_type @ lit '' chart with theme '' @ theme)])))"

section \<open>Presentation agent (\<open>presentation_agent.py\<close>)\<close>

datatype ExportFormat = POWERPOINT | PDF | GOOGLE_SLIDES | HTML

fun ExportFormat_value :: "ExportFormat \<Rightarrow> pystr" where
  "ExportFormat_value POWERPOINT = lit ''powerpoint''"
| "ExportFormat_value PDF = lit ''pdf''"
| "ExportFormat_value GOOGLE_SLIDES = lit ''google_slides''"
| "ExportFormat_value HTML = lit ''html''"

definition ExportFormat_members :: "(pystr \<times> ExportFormat) list" where
  "ExportFormat_members =
     [(lit ''POWERPOINT'', POWERPOINT), (lit ''PDF'', PDF),
      (lit ''GOOGLE_SLIDES'', GOOGLE_SLIDES), (lit ''HTML'', HTML)]"

definition ExportFormat_getitem :: "pystr \<Rightarrow> exn + ExportFormat" where
  "ExportFormat_getitem name =
     (case map_of ExportFormat_members name of None \<Rightarrow> Inl KeyError | Some m \<Rightarrow> Inr m)"

text \<open>
  The agent's state: its attributes and the log records emitted so far by the agent and
  by its slide and chart generators.
\<close>

record agent =
  theme :: pystr
  verbose :: bool
  slides :: "pydict list"
  metadata :: pydict
  logged :: "log_entry list"

text \<open>
  The collaborators that do input and output are outside the model and enter as
  parameters: the data fetcher (\<open>fetch_data\<close> returns a dictionary or \<open>None\<close> and lets no
  exception out) and the exporter registered for each format, if any (its \<open>export\<close>
  returns a boolean or raises).
\<close>

type_synonym exporter = "pydict list \<Rightarrow> pydict \<Rightarrow> pystr \<Rightarrow> pystr \<Rightarrow> pydict \<Rightarrow> exn + bool"

record collaborators =
  fetch_data :: "pystr \<Rightarrow> pyval option"
  exporters :: "ExportFormat \<Rightarrow> exporter option"

definition log_msg :: "agent \<Rightarrow> level \<Rightarrow> pystr \<Rightarrow> agent" where
  "log_msg st lv msg = st\<lparr>logged := logged st @ [(lv, msg)]\<rparr>"

text \<open>
  The loop of \<open>_generate_speaker_notes\<close>: each slide gets its notes under
  \<open>speaker_notes\<close>; an exception of the generator ends the loop.
\<close>

fun notes_loop :: "unicode_db \<Rightarrow> pydict list \<Rightarrow> exn + pydict list" where
  "notes_loop U [] = Inr []"
| "notes_loop U (slide # rest) =
     bindE (generate_speaker_notes U slide) (\<lambda>notes.
       bindE (notes_loop U rest) (\<lambda>rest'.
         Inr (dict_set slide (lit ''speaker_notes'') (VStr notes) # rest')))"

definition agent_generate_speaker_notes :: "unicode_db \<Rightarrow> agent \<Rightarrow> exn + agent" where
  "agent_generate_speaker_notes U st =
     bindE (notes_loop U (slides st)) (\<lambda>sl.
       Inr (log_msg (st\<lparr>slides := sl\<rparr>) INFO (lit ''Generated speaker notes for all slides'')))"

definition create_from_text ::
  "unicode_db \<Rightarrow> collaborators \<Rightarrow> agent \<Rightarrow> pystr \<Rightarrow> pystr list \<Rightarrow> pystr option \<Rightarrow> bool \<Rightarrow> exn + agent" where
  "create_from_text U C st title sections data_source speaker_notes =
     (let st1 = log_msg st INFO (lit ''Creating presentation: '' @ title);
          st2 = st1\<lparr>metadata := dict_set (metadata st1) (lit ''title'') (VStr title)\<rparr>
      in bindE (generate_slides_from_text title sections) (\<lambda>(sl, lg).
           let st3 = st2\<lparr>slides := sl, logged := logged st2 @ lg\<rparr>;
               st4 = (case data_source of
                        None \<Rightarrow> st3
                      | Some src \<Rightarrow>
                          if src \<noteq> []
                          then (let data = fetch_data C src
                                in log_msg st3 INFO (lit ''Loaded data from '' @ src))
                          else st3);
               st5 = st4\<lparr>slides :=
                       map (\<lambda>slide. dict_set slide (lit ''layout'') (VStr (suggest_layout slide)))
                         (slides st4)\<rparr>
           in bindE (if speaker_notes then agent_generate_speaker_notes U st5 else Inr st5)
                (\<lambda>st6.
                   Inr (log_msg st6 INFO
                          (lit ''Created '' @ dec_int (int (length (slides st6))) @
                           lit '' slides'')))))"

text \<open>
  \<open>xs[i]\<close> for a Python list: a negative index counts from the end, an index outside
  \<open>-len(xs) .. len(xs) - 1\<close> raises \<open>IndexError\<close>.
\<close>

definition list_index :: "'a list \<Rightarrow> int \<Rightarrow> exn + nat" where
  "list_index xs i =
     (let n = int (length xs); j = (if i < 0 then i + n else i)
      in if 0 \<le> j \<and> j < n then Inr (nat j) else Inl IndexError)"

text \<open>
  \<open>add_chart\<close> renders \<open>slide_index\<close> in both of its messages.  In the out-of-range
  message the index is any integer, so the conversion is \<open>str_int\<close>; in the message after
  the chart is attached it is a valid position of the list.
\<close>

definition add_chart ::
  "unicode_db \<Rightarrow> agent \<Rightarrow> int \<Rightarrow> pystr \<Rightarrow> pyval \<Rightarrow> exn + agent" where
  "add_chart U st slide_index chart_type data =
     (if slide_index \<ge> int (length (slides st))
      then bindE (str_int slide_index) (\<lambda>index.
             Inr (log_msg st ERROR (lit ''Slide index '' @ index @ lit '' out of range'')))
      else bindE (generate_chart U chart_type data (theme st) [] []) (\<lambda>(chart, lg).
             bindE (list_index (slides st) slide_index) (\<lambda>j.
               let st1 = st\<lparr>slides := (slides st)[j := dict_set (slides st ! j) (lit ''chart'')
                                                          (VDict chart)],
                             logged := logged st @ lg\<rparr>
               in Inr (log_msg st1 INFO
                         (lit ''Added '' @ chart_type @ lit '' chart to slide '' @
                          dec_int slide_index)))))"

definition export ::
  "unicode_db \<Rightarrow> collaborators \<Rightarrow> agent \<Rightarrow> pystr \<Rightarrow> pystr \<Rightarrow> pydict \<Rightarrow> exn + (bool \<times> agent)" where
  "export U C st format_type output_path kwargs =
     (case ExportFormat_getitem (py_upper U format_type) of
        Inl e \<Rightarrow>
          (if e = KeyError
           then Inr (False, log_msg st ERROR (lit ''Unsupported export format: '' @ format_type))
           else Inl e)
      | Inr format_enum \<Rightarrow>
          (case exporters C format_enum of
             None \<Rightarrow>
               Inr (False,
                    log_msg st ERROR (lit ''Exporter not found for format: '' @ format_type))
           | Some exporter \<Rightarrow>
               bindE (exporter (slides st) (metadata st) output_path (theme st) kwargs)
                 (\<lambda>success.
                    Inr (success,
                         if success
                         then log_msg st INFO (lit ''Successfully exported to '' @ output_path)
                         else log_msg st ERROR
                                (lit ''Export to '' @ output_path @ lit '' failed'')))))"

definition get_slides :: "agent \<Rightarrow> pydict list" where
  "get_slides st = slides st"

definition get_metadata :: "agent \<Rightarrow> pydict" where
  "get_metadata st = metadata st"

definition init_agent :: "pystr \<Rightarrow> bool \<Rightarrow> agent" where
  "init_agent th vb =
     \<lparr>theme = th, verbose = vb, slides = [], metadata = [],
      logged = [(INFO, lit ''PresentationAgent initialized with theme: '' @ th)]\<rparr>"

section \<open>The layout rules as the specification words them\<close>

text \<open>
  The specification gives the layout choice as an ordered table of rules, the first
  matching rule deciding, with \<open>bullet_points\<close> as the default.  \<open>content_has\<close> is
  ``the content has the key'': the slide's content is a mapping with that key.
\<close>

definition content_has :: "pydict \<Rightarrow> pystr \<Rightarrow> bool" where
  "content_has slide k =
     (case dict_get slide (lit ''content'') of Some (VDict c) \<Rightarrow> dict_contains c k | _ \<Rightarrow> False)"

definition layout_rules :: "((pydict \<Rightarrow> bool) \<times> pystr) list" where
  "layout_rules =
     [(\<lambda>slide. dict_get slide (lit ''type'') = Some (VStr (lit ''title'')), lit ''title_slide''),
      (\<lambda>slide. dict_contains slide (lit ''chart''), lit ''chart_slide''),
      (\<lambda>slide. content_has slide (lit ''left_column'') \<and> content_has slide (lit ''right_column''),
         lit ''two_column''),
      (\<lambda>slide. content_has slide (lit ''image'') \<and> content_has slide (lit ''text''),
         lit ''image_and_text''),
      (\<lambda>slide. content_has slide (lit ''bullet_points''), lit ''bullet_points'')]"

fun first_match :: "((pydict \<Rightarrow> bool) \<times> pystr) list \<Rightarrow> pystr \<Rightarrow> pydict \<Rightarrow> pystr" where
  "first_match [] dflt slide = dflt"
| "first_match ((cond, name) # rules) dflt slide =
     (if cond slide then name else first_match rules dflt slide)"

section \<open>Concrete parameters for evaluation\<close>

text \<open>
  A Unicode table that is only consulted beyond ASCII, and collaborators that fetch
  nothing and export nothing; the concrete evaluations below use ASCII text.
\<close>

definition sample_db :: unicode_db where
  "sample_db = \<lparr>upper_ext = (\<lambda>c. [c]), printable_ext = (\<lambda>c. True)\<rparr>"

definition no_collaborators :: collaborators where
  "no_collaborators = \<lparr>fetch_data = (\<lambda>src. None), exporters = (\<lambda>fmt. None)\<rparr>"

text \<open>
  The deck that \<open>create_from_text("T", ["A"], speaker_notes=False)\<close> leaves in a fresh
  agent (its log left out).
\<close>

definition sample_agent :: agent where
  "sample_agent =
     \<lparr>theme = lit ''default'', verbose = False,
      slides =
        [[(lit ''id'', VInt 0), (lit ''title'', VStr (lit ''T'')),
          (lit ''type'', VStr (lit ''title'')),
          (lit ''content'',
             VDict [(lit ''heading'', VStr (lit ''T'')),
                    (lit ''subheading'', VStr (lit ''Auto-generated Presentation''))]),
          (lit ''layout'', VStr (lit ''title_slide''))],
         [(lit ''id'', VInt 1), (lit ''title'', VStr (lit ''A'')),
          (lit ''type'', VStr (lit ''content'')),
          (lit ''content'',
             VDict [(lit ''heading'', VStr (lit ''A'')),
                    (lit ''bullet_points'', VList [VStr (lit ''A'')])]),
          (lit ''layout'', VStr (lit ''bullet_points''))]],
      metadata = [(lit ''title'', VStr (lit ''T''))],
      logged = []\<rparr>"

section \<open>Basic facts\<close>

lemma lit_eq_iff [simp]: "lit a = lit b \<longleftrightarrow> a = b"
  by (simp add: lit_def inj_map_eq_map [OF inj_of_char])

lemma bindE_Inr [simp]: "bindE (Inr x) f = f x"
  by (simp add: bindE_def)

lemma bindE_Inl [simp]: "bindE (Inl e) f = Inl e"
  by (simp add: bindE_def)

text \<open>\<open>split('\n')\<close> returns at least one piece, so \<open>lines[0]\<close> never raises.\<close>

lemma split_nl_nonempty: "split_nl s \<noteq> []"
  by (induction s) (auto split: list.splits)

lemma template_layout_content:
  "template_layout (lit ''content'') = Inr (VStr (lit ''bullet_points''))"
  by (simp add: template_layout_def load_templates_def dict_getitem_def py_getitem_def)

lemma template_layout_title:
  "template_layout (lit ''title'') = Inr (VStr (lit ''title_slide''))"
  by (simp add: template_layout_def load_templates_def dict_getitem_def py_getitem_def)

section \<open>The slide sequence of \<open>generate_slides_from_text\<close>\<close>

text \<open>A section always parses: the slide it yields, written out.\<close>

lemma parse_section_to_slide_eq:
  "parse_section_to_slide section i =
     Inr [(lit ''id'', VInt i),
          (lit ''title'', VStr (py_strip (hd (split_nl (py_strip section))))),
          (lit ''type'', VStr (lit ''content'')),
          (lit ''content'',
             VDict [(lit ''heading'', VStr (py_strip (hd (split_nl (py_strip section))))),
                    (lit ''bullet_points'',
                       VList (map VStr
                         (if bullet_loop [] (tl (split_nl (py_strip section))) \<noteq> []
                          then bullet_loop [] (tl (split_nl (py_strip section)))
                          else [section])))]),
          (lit ''layout'', VStr (lit ''bullet_points''))]"
  using split_nl_nonempty [of "py_strip section"]
  by (cases "split_nl (py_strip section)")
     (simp_all add: parse_section_to_slide_def template_layout_content Let_def)

lemma parse_section_to_slide_id:
  "parse_section_to_slide section i = Inr slide \<Longrightarrow> dict_get slide (lit ''id'') = Some (VInt i)"
  by (auto simp: parse_section_to_slide_eq dict_get_def)

lemma section_loop_enumerate:
  "\<exists>sl. section_loop acc (int k) sections = Inr (acc @ sl) \<and>
        map Inr sl = map (\<lambda>(j, s). parse_section_to_slide s (int j)) (enumerate k sections)"
proof (induction sections arbitrary: acc k)
  case Nil
  show ?case by simp
next
  case (Cons s ss)
  obtain slide where p: "parse_section_to_slide s (int k) = Inr slide"
    by (simp add: parse_section_to_slide_eq)
  from Cons.IH [of "acc @ [slide]" "Suc k"]
  obtain sl where "section_loop (acc @ [slide]) (int (Suc k)) ss = Inr ((acc @ [slide]) @ sl)"
    and "map Inr sl = map (\<lambda>(j, s). parse_section_to_slide s (int j)) (enumerate (Suc k) ss)"
    by blast
  then show ?case
    using p by (intro exI [of _ "slide # sl"]) (simp add: add.commute)
qed

lemma slide_ids_of_parsed:
  "map Inr sl = map (\<lambda>(j, s). parse_section_to_slide s (int j)) (enumerate k sections) \<Longrightarrow>
   map (\<lambda>s. dict_get s (lit ''id'')) sl = map (\<lambda>j. Some (VInt (int j))) [k..<k + length sections]"
proof (induction sections arbitrary: sl k)
  case Nil
  then show ?case by simp
next
  case (Cons s ss)
  then obtain x xs where sl: "sl = x # xs" by (cases sl) auto
  with Cons.prems have x: "parse_section_to_slide s (int k) = Inr x"
    and xs: "map Inr xs = map (\<lambda>(j, s). parse_section_to_slide s (int j)) (enumerate (Suc k) ss)"
    by simp_all
  have upt: "[k..<k + length (s # ss)] = k # [Suc k..<Suc k + length ss]"
    by (simp add: upt_rec)
  from Cons.IH [OF xs] parse_section_to_slide_id [OF x] show ?case
    unfolding sl upt by simp
qed

lemma generate_slides_from_text_eq:
  "\<exists>sl. generate_slides_from_text title sections =
          Inr ([(lit ''id'', VInt 0), (lit ''title'', VStr title),
                (lit ''type'', VStr (lit ''title'')),
                (lit ''content'',
                   VDict [(lit ''heading'', VStr title),
                          (lit ''subheading'', VStr (lit ''Auto-generated Presentation''))]),
                (lit ''layout'', VStr (lit ''title_slide''))] # sl,
               [(INFO, lit ''Generated '' @ dec_int (int (Suc (length sl))) @
                       lit '' slides from '' @ dec_int (int (length sections)) @
                       lit '' sections'')]) \<and>
        map Inr sl = map (\<lambda>(j, s). parse_section_to_slide s (int j)) (enumerate 1 sections)"
proof -
  let ?t = "[(lit ''id'', VInt 0), (lit ''title'', VStr title), (lit ''type'', VStr (lit ''title'')),
             (lit ''content'',
                VDict [(lit ''heading'', VStr title),
                       (lit ''subheading'', VStr (lit ''Auto-generated Presentation''))]),
             (lit ''layout'', VStr (lit ''title_slide''))]"
  from section_loop_enumerate [of "[?t]" 1 sections]
  obtain sl where loop: "section_loop [?t] 1 sections = Inr ([?t] @ sl)"
    and parsed: "map Inr sl = map (\<lambda>(j, s). parse_section_to_slide s (int j)) (enumerate 1 sections)"
    by auto
  show ?thesis
    using loop parsed
    by (intro exI [of _ sl]) (simp add: generate_slides_from_text_def template_layout_title)
qed

lemma generate_slides_from_text_length:
  "\<exists>sl lg. generate_slides_from_text title sections = Inr (sl, lg) \<and>
           length sl = length sections + 1"
proof -
  from generate_slides_from_text_eq [of title sections]
  obtain sl t lg where gen: "generate_slides_from_text title sections = Inr (t # sl, lg)"
    and parsed: "map Inr sl = map (\<lambda>(j, s). parse_section_to_slide s (int j)) (enumerate 1 sections)"
    by blast
  from parsed have "length sl = length sections"
    by (metis length_map length_enumerate)
  with gen show ?thesis by simp
qed

text \<open>
  Claim C1.  For every title and every list of \<open>N\<close> sections (the non-empty ones among
  them), \<open>generate_slides_from_text\<close> returns, without raising, exactly \<open>N + 1\<close> slides: the
  first has id \<open>0\<close>, type \<open>title\<close> and content \<open>{heading: title, subheading:
  'Auto-generated Presentation'}\<close>; the others carry the ids \<open>1..N\<close> in order, the slide
  with id \<open>j\<close> being the one parsed from the \<open>j\<close>-th section.
\<close>

theorem generate_slides_from_text_slides:
  "\<exists>sl lg. generate_slides_from_text title sections = Inr (sl, lg) \<and>
     length sl = length sections + 1 \<and>
     dict_get (hd sl) (lit ''id'') = Some (VInt 0) \<and>
     dict_get (hd sl) (lit ''type'') = Some (VStr (lit ''title'')) \<and>
     dict_get (hd sl) (lit ''content'') =
       Some (VDict [(lit ''heading'', VStr title),
                    (lit ''subheading'', VStr (lit ''Auto-generated Presentation''))]) \<and>
     map (\<lambda>s. dict_get s (lit ''id'')) (tl sl) =
       map (\<lambda>j. Some (VInt (int j))) [1..<length sections + 1] \<and>
     map Inr (tl sl) =
       map (\<lambda>(j, s). parse_section_to_slide s (int j)) (enumerate 1 sections)"
proof -
  from generate_slides_from_text_eq [of title sections]
  obtain sl t lg where gen: "generate_slides_from_text title sections = Inr (t # sl, lg)"
    and t: "t = [(lit ''id'', VInt 0), (lit ''title'', VStr title),
                 (lit ''type'', VStr (lit ''title'')),
                 (lit ''content'',
                    VDict [(lit ''heading'', VStr title),
                           (lit ''subheading'', VStr (lit ''Auto-generated Presentation''))]),
                 (lit ''layout'', VStr (lit ''title_slide''))]"
    and parsed: "map Inr sl = map (\<lambda>(j, s). parse_section_to_slide s (int j)) (enumerate 1 sections)"
    by blast
  from parsed have len: "length sl = length sections"
    by (metis length_map length_enumerate)
  show ?thesis
    using gen len parsed slide_ids_of_parsed [OF parsed]
    by (simp add: t dict_get_def)
qed

section \<open>The fallback of \<open>_parse_section_to_slide\<close>\<close>

lemma split_nl_Cons:
  "split_nl (c # cs) =
     (if c = 10 then [] # split_nl cs else (c # hd (split_nl cs)) # tl (split_nl cs))"
  using split_nl_nonempty [of cs] by (cases "split_nl cs") simp_all

text \<open>Splitting a concatenation: the last line of the left part and the first of the right join.\<close>

lemma split_nl_append:
  "split_nl (a @ b) =
     butlast (split_nl a) @ [last (split_nl a) @ hd (split_nl b)] @ tl (split_nl b)"
proof (induction a)
  case Nil
  show ?case using split_nl_nonempty [of b] by simp
next
  case (Cons c a)
  show ?case
  proof (cases "butlast (split_nl a) = []")
    case True
    then show ?thesis
      using Cons.IH split_nl_nonempty [of a]
      by (simp add: split_nl_Cons del: split_nl.simps)
         (metis append_butlast_last_id append_Nil list.sel(1,3))
  next
    case False
    then show ?thesis
      using Cons.IH split_nl_nonempty [of a]
      by (cases "split_nl a"; cases "butlast (split_nl a)")
         (auto simp add: split_nl_Cons simp del: split_nl.simps split: if_splits)
  qed
qed

lemma tl_split_nl_suffix: "set (tl (split_nl b)) \<subseteq> set (tl (split_nl (a @ b)))"
  by (cases "butlast (split_nl a)") (auto simp: split_nl_append)

lemma hd_split_nl_subset: "set (hd (split_nl w)) \<subseteq> set w"
proof (induction w)
  case Nil
  show ?case by simp
next
  case (Cons c w)
  then show ?case by (auto simp: split_nl_Cons simp del: split_nl.simps)
qed

text \<open>A line trims to the empty string exactly when it is white space only.\<close>

lemma py_strip_empty_iff: "py_strip l = [] \<longleftrightarrow> (\<forall>c \<in> set l. isspace c)"
proof
  assume "py_strip l = []"
  then have all: "\<forall>c \<in> set (dropWhile isspace l). isspace c"
    by (simp add: py_strip_def)
  have "dropWhile isspace l = []"
  proof (rule ccontr)
    assume ne: "dropWhile isspace l \<noteq> []"
    then have "\<not> isspace (hd (dropWhile isspace l))" by (rule hd_dropWhile)
    with all ne show False by simp
  qed
  then show "\<forall>c \<in> set l. isspace c"
    by simp
next
  assume "\<forall>c \<in> set l. isspace c"
  then have d: "dropWhile isspace l = []"
    by simp
  show "py_strip l = []"
    unfolding py_strip_def d by simp
qed

lemma py_strip_append_space:
  assumes "\<forall>c \<in> set w. isspace c"
  shows "py_strip (x @ w) = py_strip x"
proof (cases "\<forall>c \<in> set x. isspace c")
  case True
  with assms have "py_strip (x @ w) = []" "py_strip x = []"
    by (auto simp: py_strip_empty_iff)
  then show ?thesis by simp
next
  case False
  then have "dropWhile isspace (x @ w) = dropWhile isspace x @ w"
    by auto
  moreover have "dropWhile isspace (rev w @ rev (dropWhile isspace x)) =
                 dropWhile isspace (rev (dropWhile isspace x))"
    using assms by (intro dropWhile_append2) simp
  ultimately show ?thesis by (simp add: py_strip_def)
qed

lemma tl_split_nl_space_suffix:
  assumes w: "\<forall>c \<in> set w. isspace c" and l': "l' \<in> set (tl (split_nl u))"
  shows "\<exists>l \<in> set (tl (split_nl (u @ w))). py_strip l = py_strip l'"
proof -
  let ?A = "split_nl u" and ?B = "split_nl w"
  have A: "?A = butlast ?A @ [last ?A]"
    using split_nl_nonempty [of u] by simp
  from l' A have ne: "butlast ?A \<noteq> []"
    by (metis append_Nil list.sel(3) list.set(1) empty_iff)
  then have tlA: "tl ?A = tl (butlast ?A) @ [last ?A]"
    using A by (metis tl_append2)
  have whole: "tl (split_nl (u @ w)) = tl (butlast ?A) @ [last ?A @ hd ?B] @ tl ?B"
    using ne by (simp add: split_nl_append)
  from l' tlA consider "l' \<in> set (tl (butlast ?A))" | "l' = last ?A"
    by auto
  then show ?thesis
  proof cases
    case 1
    then show ?thesis unfolding whole by auto
  next
    case 2
    have "\<forall>c \<in> set (hd ?B). isspace c"
      using w hd_split_nl_subset [of w] by auto
    then have "py_strip (last ?A @ hd ?B) = py_strip l'"
      unfolding 2 by (rule py_strip_append_space)
    then show ?thesis unfolding whole by auto
  qed
qed

text \<open>
  The code splits the trimmed section.  Each line after the first of the trimmed section
  is a line after the first of the section itself, up to trailing white space.
\<close>

lemma stripped_body_lines:
  assumes "l' \<in> set (tl (split_nl (py_strip section)))"
  shows "\<exists>l \<in> set (tl (split_nl section)). py_strip l = py_strip l'"
proof -
  let ?t = "dropWhile isspace section"
  let ?w = "rev (takeWhile isspace (rev ?t))"
  have t: "?t = py_strip section @ ?w"
    unfolding py_strip_def
    by (metis rev_append rev_rev_ident takeWhile_dropWhile_id)
  have w: "\<forall>c \<in> set ?w. isspace c"
    by (auto dest: set_takeWhileD)
  from tl_split_nl_space_suffix [OF w assms]
  obtain l where "l \<in> set (tl (split_nl (py_strip section @ ?w)))"
    and eq: "py_strip l = py_strip l'"
    by blast
  then have "l \<in> set (tl (split_nl ?t))"
    using t by simp
  moreover have "section = takeWhile isspace section @ ?t"
    by simp
  ultimately have "l \<in> set (tl (split_nl section))"
    using tl_split_nl_suffix [of ?t "takeWhile isspace section"] by auto
  with eq show ?thesis by blast
qed

lemma bullet_loop_skips:
  "\<forall>l \<in> set ls. py_strip l = [] \<or> startswith (py_strip l) (lit ''#'') \<Longrightarrow>
   bullet_loop acc ls = acc"
  by (induction ls arbitrary: acc) (auto simp: Let_def)

text \<open>
  Claim C5.  When every line after the first is white space only or starts with \<open>#\<close>
  once trimmed (the lines being those of the section as given, or those of the trimmed
  section that the code splits), the content slide's \<open>bullet_points\<close> is the one-element
  list holding the section text unchanged; and the \<open>bullet_points\<close> of a parsed section
  is never the empty list.
\<close>

theorem parse_section_to_slide_fallback:
  assumes "(\<forall>l \<in> set (tl (split_nl section)).
              (\<forall>c \<in> set l. isspace c) \<or> startswith (py_strip l) (lit ''#'')) \<or>
           (\<forall>l \<in> set (tl (split_nl (py_strip section))).
              (\<forall>c \<in> set l. isspace c) \<or> startswith (py_strip l) (lit ''#''))"
  shows "(\<exists>slide content.
            parse_section_to_slide section slide_id = Inr slide \<and>
            dict_get slide (lit ''content'') = Some (VDict content) \<and>
            dict_get content (lit ''bullet_points'') = Some (VList [VStr section])) \<and>
         (\<forall>s i. \<exists>slide content bullets.
            parse_section_to_slide s i = Inr slide \<and>
            dict_get slide (lit ''content'') = Some (VDict content) \<and>
            dict_get content (lit ''bullet_points'') = Some (VList bullets) \<and> bullets \<noteq> [])"
proof -
  have body: "\<forall>l \<in> set (tl (split_nl (py_strip section))).
                py_strip l = [] \<or> startswith (py_strip l) (lit ''#'')"
  proof
    fix l' assume l': "l' \<in> set (tl (split_nl (py_strip section)))"
    from assms show "py_strip l' = [] \<or> startswith (py_strip l') (lit ''#'')"
    proof
      assume raw: "\<forall>l \<in> set (tl (split_nl section)).
                     (\<forall>c \<in> set l. isspace c) \<or> startswith (py_strip l) (lit ''#'')"
      from stripped_body_lines [OF l'] obtain l
        where "l \<in> set (tl (split_nl section))" and eq: "py_strip l = py_strip l'"
        by blast
      with raw have "(\<forall>c \<in> set l. isspace c) \<or> startswith (py_strip l) (lit ''#'')"
        by blast
      then have "py_strip l = [] \<or> startswith (py_strip l) (lit ''#'')"
        by (simp only: py_strip_empty_iff)
      then show ?thesis by (simp add: eq)
    next
      assume "\<forall>l \<in> set (tl (split_nl (py_strip section))).
                (\<forall>c \<in> set l. isspace c) \<or> startswith (py_strip l) (lit ''#'')"
      with l' have "(\<forall>c \<in> set l'. isspace c) \<or> startswith (py_strip l') (lit ''#'')"
        by blast
      then show ?thesis by (simp only: py_strip_empty_iff)
    qed
  qed
  have "bullet_loop [] (tl (split_nl (py_strip section))) = []"
    using body by (rule bullet_loop_skips)
  then have "\<exists>slide content.
           parse_section_to_slide section slide_id = Inr slide \<and>
           dict_get slide (lit ''content'') = Some (VDict content) \<and>
           dict_get content (lit ''bullet_points'') = Some (VList [VStr section])"
    by (simp add: parse_section_to_slide_eq dict_get_def)
  moreover have "\<forall>s i. \<exists>slide content bullets.
           parse_section_to_slide s i = Inr slide \<and>
           dict_get slide (lit ''content'') = Some (VDict content) \<and>
           dict_get content (lit ''bullet_points'') = Some (VList bullets) \<and> bullets \<noteq> []"
    by (simp add: parse_section_to_slide_eq dict_get_def)
  ultimately show ?thesis by blast
qed

text \<open>
  The section \<open>"Title\n  \n# note"\<close>: its second line is blank and its third a heading,
  so the only bullet is the section itself.
\<close>

theorem parse_section_to_slide_fallback_witness:
  "tl (split_nl (lit ''Title'' @ [10] @ lit ''  '' @ [10] @ lit ''# note'')) =
     [lit ''  '', lit ''# note''] \<and>
   (\<exists>slide content.
      parse_section_to_slide (lit ''Title'' @ [10] @ lit ''  '' @ [10] @ lit ''# note'') 1 =
        Inr slide \<and>
      dict_get slide (lit ''content'') = Some (VDict content) \<and>
      dict_get content (lit ''bullet_points'') =
        Some (VList [VStr (lit ''Title'' @ [10] @ lit ''  '' @ [10] @ lit ''# note'')]))"
proof -
  let ?sec = "lit ''Title'' @ [10] @ lit ''  '' @ [10] @ lit ''# note''"
  have lines: "tl (split_nl ?sec) = [lit ''  '', lit ''# note'']"
    by (simp add: lit_def)
  have h: "(\<forall>l \<in> set (tl (split_nl ?sec)).
              (\<forall>c \<in> set l. isspace c) \<or> startswith (py_strip l) (lit ''#'')) \<or>
           (\<forall>l \<in> set (tl (split_nl (py_strip ?sec))).
              (\<forall>c \<in> set l. isspace c) \<or> startswith (py_strip l) (lit ''#''))"
    unfolding lines by (simp add: lit_def isspace_def py_strip_def startswith_def)
  from parse_section_to_slide_fallback [OF h, of 1] lines show ?thesis
    by blast
qed

section \<open>Layout suggestion\<close>

text \<open>
  Claim C2.  \<open>suggest_layout\<close> is the first-match evaluation of the ordered rule table
  (title type, attached chart, both columns, image and text, bullet points) with
  \<open>bullet_points\<close> as the default; in particular a slide of type \<open>title\<close> gets
  \<open>title_slide\<close> whatever else it carries.
\<close>

theorem suggest_layout_first_match:
  "suggest_layout slide = first_match layout_rules (lit ''bullet_points'') slide \<and>
   (dict_get slide (lit ''type'') = Some (VStr (lit ''title'')) \<longrightarrow>
      suggest_layout slide = lit ''title_slide'')"
  by (auto simp: suggest_layout_def layout_rules_def content_has_def dict_get_default_def
        dict_get_def dict_contains_def split: option.splits pyval.splits)

text \<open>A title slide that also has a chart attached and two columns of content.\<close>

theorem suggest_layout_first_match_witness:
  "dict_contains [(lit ''type'', VStr (lit ''title'')),
                  (lit ''content'', VDict [(lit ''left_column'', VNone),
                                          (lit ''right_column'', VNone)]),
                  (lit ''chart'', VDict [])] (lit ''chart'') \<and>
   suggest_layout [(lit ''type'', VStr (lit ''title'')),
                   (lit ''content'', VDict [(lit ''left_column'', VNone),
                                           (lit ''right_column'', VNone)]),
                   (lit ''chart'', VDict [])] = lit ''title_slide''"
proof -
  let ?s = "[(lit ''type'', VStr (lit ''title'')),
             (lit ''content'', VDict [(lit ''left_column'', VNone), (lit ''right_column'', VNone)]),
             (lit ''chart'', VDict [])]"
  have h: "dict_get ?s (lit ''type'') = Some (VStr (lit ''title''))"
    by (simp add: dict_get_def)
  have c: "dict_contains ?s (lit ''chart'')"
    by (simp add: dict_contains_def)
  from suggest_layout_first_match [of ?s] h c show ?thesis
    by blast
qed

section \<open>Failure reports of the agent\<close>

lemma ExportFormat_getitem_cases:
  "ExportFormat_getitem n = Inl KeyError \<or> (\<exists>m. ExportFormat_getitem n = Inr m)"
  by (simp add: ExportFormat_getitem_def split: option.splits)

text \<open>The member names are the upper-cased member values.\<close>

lemma ExportFormat_getitem_Inr:
  "ExportFormat_getitem n = Inr m \<Longrightarrow> n = py_upper U (ExportFormat_value m)"
  by (cases m)
     (auto simp: ExportFormat_getitem_def ExportFormat_members_def py_upper_def upper_cp_def
           lit_def split: if_splits)


lemma dec_nat_length_le: "n < 10 ^ Suc k \<Longrightarrow> length (dec_nat n) \<le> Suc k"
proof (induction k arbitrary: n)
  case 0
  then show ?case by (subst dec_nat.simps) simp
next
  case (Suc k)
  then have "n div 10 < 10 ^ Suc k"
    by (simp add: div_less_iff_less_mult mult.commute)
  from Suc.IH [OF this] show ?case
    by (subst dec_nat.simps) simp
qed


lemma num_digits_le: "\<bar>i\<bar> < 10 ^ Suc k \<Longrightarrow> num_digits i \<le> Suc k"
proof -
  assume "\<bar>i\<bar> < 10 ^ Suc k"
  then have "nat \<bar>i\<bar> < 10 ^ Suc k"
    by (simp add: nat_less_iff)
  then show "num_digits i \<le> Suc k"
    unfolding num_digits_def by (rule dec_nat_length_le)
qed







text \<open>
  Claim C6.  When \<open>format_type\<close> matches none of the four format values
  \<open>powerpoint\<close>, \<open>pdf\<close>, \<open>google_slides\<close>, \<open>html\<close> up to case, \<open>export\<close> returns \<open>False\<close>
  without raising, before any exporter is consulted, and the state is as before but for the
  error record \<open>Unsupported export format\<close>.
\<close>

theorem export_unknown_format:
  assumes "\<forall>m. py_upper U format_type \<noteq> py_upper U (ExportFormat_value m)"
  shows "export U C st format_type output_path kwargs =
           Inr (False, st\<lparr>logged := logged st @
                    [(ERROR, lit ''Unsupported export format: '' @ format_type)]\<rparr>) \<and>
         (\<exists>st'. export U C st format_type output_path kwargs = Inr (False, st') \<and>
                 slides st' = slides st \<and> metadata st' = metadata st \<and> theme st' = theme st)"
proof -
  have "ExportFormat_getitem (py_upper U format_type) = Inl KeyError"
    using ExportFormat_getitem_cases [of "py_upper U format_type"] assms
    by (auto dest: ExportFormat_getitem_Inr [where U = U])
  then show ?thesis
    by (simp add: export_def log_msg_def)
qed

text \<open>The format name \<open>docx\<close>.\<close>

theorem export_unknown_format_witness:
  "export sample_db no_collaborators sample_agent (lit ''docx'') (lit ''deck.docx'') [] =
     Inr (False, sample_agent\<lparr>logged := logged sample_agent @
            [(ERROR, lit ''Unsupported export format: '' @ lit ''docx'')]\<rparr>)"
proof -
  have h: "\<forall>m. py_upper sample_db (lit ''docx'') \<noteq> py_upper sample_db (ExportFormat_value m)"
  proof
    fix m show "py_upper sample_db (lit ''docx'') \<noteq> py_upper sample_db (ExportFormat_value m)"
      by (cases m) (simp_all add: py_upper_def upper_cp_def lit_def)
  qed
  from export_unknown_format [OF h] show ?thesis
    by blast
qed

section \<open>Chart descriptors\<close>

lemma dict_get_dict_set:
  "dict_get (dict_set d k v) k' = (if k' = k then Some v else dict_get d k')"
  by (simp add: dict_get_def dict_set_def update_conv')

lemma ChartType_getitem_value: "ChartType_getitem (py_upper U (ChartType_value m)) = Inr m"
  by (cases m)
     (simp_all add: ChartType_getitem_def ChartType_members_def py_upper_def upper_cp_def lit_def)

lemma ChartType_getitem_cases:
  "ChartType_getitem n = Inl KeyError \<or> (\<exists>m. ChartType_getitem n = Inr m)"
  by (simp add: ChartType_getitem_def split: option.splits)

lemma ChartType_getitem_Inr:
  "ChartType_getitem n = Inr m \<Longrightarrow> n = py_upper U (ChartType_value m)"
  by (cases m)
     (auto simp: ChartType_getitem_def ChartType_members_def py_upper_def upper_cp_def lit_def
           split: if_splits)

lemma default_style_present: "\<exists>v. dict_getitem load_chart_styles (lit ''default'') = Inr v"
  by (simp add: load_chart_styles_def dict_getitem_def)

text \<open>A chart type that matches a member value up to case yields the full descriptor.\<close>

lemma generate_chart_known:
  assumes "py_upper U chart_type = py_upper U (ChartType_value m)"
  shows "\<exists>default_style.
           dict_get load_chart_styles (lit ''default'') = Some default_style \<and>
           generate_chart U chart_type data th title kwargs =
             Inr ([(lit ''type'', VStr chart_type),
                   (lit ''title'', VStr title),
                   (lit ''data'', data),
                   (lit ''theme'', VStr th),
                   (lit ''style'', dict_get_default load_chart_styles th default_style),
                   (lit ''kwargs'', VDict kwargs)],
                  [(INFO, lit ''Generated '' @ chart_type @ lit '' chart with theme '' @ th)])"
proof -
  obtain v where v: "dict_getitem load_chart_styles (lit ''default'') = Inr v"
    using default_style_present by blast
  then have "dict_get load_chart_styles (lit ''default'') = Some v"
    by (simp add: dict_getitem_def dict_get_def split: option.splits)
  moreover have "ChartType_getitem (py_upper U chart_type) = Inr m"
    unfolding assms by (rule ChartType_getitem_value)
  ultimately show ?thesis
    using v by (simp add: generate_chart_def)
qed

text \<open>A chart type that matches no member value yields the empty dictionary and an error record.\<close>

lemma generate_chart_unknown:
  assumes "\<forall>m. py_upper U chart_type \<noteq> py_upper U (ChartType_value m)"
  shows "generate_chart U chart_type data th title kwargs =
           Inr ([], [(ERROR, lit ''Unsupported chart type: '' @ chart_type)])"
proof -
  have "ChartType_getitem (py_upper U chart_type) = Inl KeyError"
    using ChartType_getitem_cases [of "py_upper U chart_type"] assms
    by (auto dest: ChartType_getitem_Inr [where U = U])
  then show ?thesis
    by (simp add: generate_chart_def)
qed

text \<open>
  Claim C7.  For a chart type that matches one of the seven member values up to case and
  a theme that is not a key of the style table, \<open>generate_chart\<close> returns the descriptor
  (no exception, no error record), and its \<open>style\<close> is the table's \<open>default\<close> entry.
\<close>

theorem generate_chart_unknown_theme:
  assumes "\<exists>m. py_upper U chart_type = py_upper U (ChartType_value m)"
      and "\<not> dict_contains load_chart_styles th"
  shows "\<exists>chart lg style.
           generate_chart U chart_type data th title kwargs = Inr (chart, lg) \<and>
           dict_get chart (lit ''style'') = Some style \<and>
           dict_get load_chart_styles (lit ''default'') = Some style \<and>
           dict_get chart (lit ''theme'') = Some (VStr th) \<and>
           lg = [(INFO, lit ''Generated '' @ chart_type @ lit '' chart with theme '' @ th)]"
proof -
  from assms(1) obtain m where "py_upper U chart_type = py_upper U (ChartType_value m)"
    by blast
  from generate_chart_known [OF this, of data th title kwargs]
  obtain d where d: "dict_get load_chart_styles (lit ''default'') = Some d"
    and g: "generate_chart U chart_type data th title kwargs =
             Inr ([(lit ''type'', VStr chart_type),
                   (lit ''title'', VStr title),
                   (lit ''data'', data),
                   (lit ''theme'', VStr th),
                   (lit ''style'', dict_get_default load_chart_styles th d),
                   (lit ''kwargs'', VDict kwargs)],
                  [(INFO, lit ''Generated '' @ chart_type @ lit '' chart with theme '' @ th)])"
    by blast
  have "dict_get_default load_chart_styles th d = d"
    using assms(2) by (simp add: dict_get_default_def dict_contains_def)
  with d g show ?thesis
    by (simp add: dict_get_def)
qed

text \<open>
  The specification's example: chart type \<open>PIE\<close>, data \<open>{labels: [A, B], values: [1, 2]}\<close>,
  theme \<open>unknown_theme\<close>.
\<close>

theorem generate_chart_unknown_theme_witness:
  "\<exists>chart lg style.
     generate_chart sample_db (lit ''PIE'')
       (VDict [(lit ''labels'', VList [VStr (lit ''A''), VStr (lit ''B'')]),
               (lit ''values'', VList [VInt 1, VInt 2])])
       (lit ''unknown_theme'') [] [] = Inr (chart, lg) \<and>
     dict_get chart (lit ''style'') = Some style \<and>
     dict_get load_chart_styles (lit ''default'') = Some style"
proof -
  have "py_upper sample_db (lit ''PIE'') = py_upper sample_db (ChartType_value PIE)"
    by (simp add: py_upper_def upper_cp_def lit_def)
  then have h1: "\<exists>m. py_upper sample_db (lit ''PIE'') = py_upper sample_db (ChartType_value m)"
    by blast
  have h2: "\<not> dict_contains load_chart_styles (lit ''unknown_theme'')"
    by (simp add: dict_contains_def load_chart_styles_def)
  from generate_chart_unknown_theme [OF h1 h2] show ?thesis
    by blast
qed

section \<open>Attaching charts\<close>

text \<open>
  Claim C10.  The bounds check of \<open>add_chart\<close> lets every negative index pass.  With
  \<open>-len(slides) <= slide_index < 0\<close> and a chart type that matches a member value up to
  case, \<open>add_chart\<close> returns without raising and stores the descriptor under \<open>chart\<close> in
  the slide at position \<open>len(slides) + slide_index\<close>, the other slides staying as they
  are; with \<open>slide_index = -1\<close> that is the last slide.
\<close>

theorem add_chart_negative_index:
  assumes "slides st \<noteq> []"
      and "- int (length (slides st)) \<le> slide_index" and "slide_index < 0"
      and "\<exists>m. py_upper U chart_type = py_upper U (ChartType_value m)"
  shows "\<exists>st' chart lg.
           generate_chart U chart_type data (theme st) [] [] = Inr (chart, lg) \<and>
           dict_get chart (lit ''type'') = Some (VStr chart_type) \<and>
           add_chart U st slide_index chart_type data = Inr st' \<and>
           slides st' =
             (slides st)[nat (int (length (slides st)) + slide_index) :=
                dict_set (slides st ! nat (int (length (slides st)) + slide_index))
                  (lit ''chart'') (VDict chart)] \<and>
           dict_get (slides st' ! nat (int (length (slides st)) + slide_index)) (lit ''chart'') =
             Some (VDict chart) \<and>
           (slide_index = - 1 \<longrightarrow>
              dict_get (last (slides st')) (lit ''chart'') = Some (VDict chart))"
proof -
  let ?n = "int (length (slides st))"
  let ?j = "nat (?n + slide_index)"
  from assms(4) obtain m where "py_upper U chart_type = py_upper U (ChartType_value m)"
    by blast
  from generate_chart_known [OF this, of data "theme st" "[]" "[]"]
  obtain chart lg where g: "generate_chart U chart_type data (theme st) [] [] = Inr (chart, lg)"
    and ty: "dict_get chart (lit ''type'') = Some (VStr chart_type)"
    by (auto simp: dict_get_def)
  have idx: "list_index (slides st) slide_index = Inr ?j"
    using assms(2,3) by (simp add: list_index_def Let_def add.commute)
  have j: "?j < length (slides st)"
    using assms(2,3) by linarith
  let ?sl = "(slides st)[?j := dict_set (slides st ! ?j) (lit ''chart'') (VDict chart)]"
  have a: "add_chart U st slide_index chart_type data =
             Inr (log_msg (st\<lparr>slides := ?sl, logged := logged st @ lg\<rparr>) INFO
                    (lit ''Added '' @ chart_type @ lit '' chart to slide '' @ dec_int slide_index))"
    using assms(3) g idx by (simp add: add_chart_def Let_def)
  have at: "dict_get (?sl ! ?j) (lit ''chart'') = Some (VDict chart)"
    using j by (simp add: dict_get_dict_set)
  have lst: "slide_index = - 1 \<longrightarrow> dict_get (last ?sl) (lit ''chart'') = Some (VDict chart)"
  proof
    assume m1: "slide_index = - 1"
    have "?j = length ?sl - 1"
      unfolding m1 by (simp add: nat_diff_distrib)
    moreover have "?sl \<noteq> []"
      using assms(1) by simp
    ultimately have "last ?sl = ?sl ! ?j"
      by (metis last_conv_nth)
    with at show "dict_get (last ?sl) (lit ''chart'') = Some (VDict chart)"
      by (simp only:)
  qed
  show ?thesis
    using g ty a at lst by (simp add: log_msg_def)
qed

text \<open>Index \<open>-1\<close> on the two-slide deck: the chart goes to the second slide.\<close>

theorem add_chart_negative_index_witness:
  "\<exists>st' chart.
     add_chart sample_db sample_agent (- 1) (lit ''bar'') VNone = Inr st' \<and>
     dict_get chart (lit ''type'') = Some (VStr (lit ''bar'')) \<and>
     dict_get (last (slides st')) (lit ''chart'') = Some (VDict chart) \<and>
     dict_get (last (slides sample_agent)) (lit ''chart'') = None"
proof -
  have h1: "slides sample_agent \<noteq> []"
    by (simp add: sample_agent_def)
  have h2: "- int (length (slides sample_agent)) \<le> - 1"
    by (simp add: sample_agent_def)
  have h3: "(- 1 :: int) < 0"
    by simp
  have "py_upper sample_db (lit ''bar'') = py_upper sample_db (ChartType_value BAR)"
    by simp
  then have h4: "\<exists>m. py_upper sample_db (lit ''bar'') = py_upper sample_db (ChartType_value m)"
    by blast
  have before: "dict_get (last (slides sample_agent)) (lit ''chart'') = None"
    by (simp add: sample_agent_def dict_get_def)
  from add_chart_negative_index [OF h1 h2 h3 h4, of VNone] before show ?thesis
    by blast
qed

text \<open>
  Below \<open>-len(slides)\<close> the subscript raises \<open>IndexError\<close>, which \<open>add_chart\<close> does not
  catch.
\<close>

lemma add_chart_below_range:
  assumes "slide_index < - int (length (slides st))"
      and "\<exists>m. py_upper U chart_type = py_upper U (ChartType_value m)"
  shows "add_chart U st slide_index chart_type data = Inl IndexError"
proof -
  from assms(2) obtain m where "py_upper U chart_type = py_upper U (ChartType_value m)"
    by blast
  from generate_chart_known [OF this, of data "theme st" "[]" "[]"]
  obtain chart lg where g: "generate_chart U chart_type data (theme st) [] [] = Inr (chart, lg)"
    by blast
  have "list_index (slides st) slide_index = Inl IndexError"
    using assms(1) by (simp add: list_index_def Let_def)
  moreover have "\<not> int (length (slides st)) \<le> slide_index"
    using assms(1) by linarith
  ultimately show ?thesis
    using g by (simp add: add_chart_def)
qed

text \<open>
  The sample deck is what \<open>create_from_text("T", ["A"], speaker_notes=False)\<close> builds in a
  fresh agent with the default theme.
\<close>

lemma sample_agent_created:
  "\<exists>st. create_from_text sample_db no_collaborators (init_agent (lit ''default'') False)
           (lit ''T'') [lit ''A''] None False = Inr st \<and>
        slides st = slides sample_agent \<and> metadata st = metadata sample_agent \<and>
        theme st = theme sample_agent"
proof -
  have s: "py_strip (lit ''A'') = lit ''A''"
    by (simp add: py_strip_def isspace_def lit_def)
  have l: "split_nl (lit ''A'') = [lit ''A'']"
    by (simp add: lit_def)
  have p: "parse_section_to_slide (lit ''A'') 1 = Inr (slides sample_agent ! 1)"
    by (simp add: parse_section_to_slide_eq s l sample_agent_def)
  have "\<exists>lg. generate_slides_from_text (lit ''T'') [lit ''A''] = Inr (slides sample_agent, lg)"
    using p by (simp add: generate_slides_from_text_def template_layout_title sample_agent_def)
  then obtain lg
    where "generate_slides_from_text (lit ''T'') [lit ''A''] = Inr (slides sample_agent, lg)"
    by blast
  then show ?thesis
    by (simp add: create_from_text_def init_agent_def log_msg_def Let_def sample_agent_def
          suggest_layout_def dict_get_default_def dict_contains_def dict_set_def)
qed

text \<open>
  On an index within the deck and a chart type that matches no member value, \<open>add_chart\<close>
  goes on after the generator's error record: it stores the empty dictionary that
  \<open>generate_chart\<close> returned under the slide's \<open>chart\<close> key and reports the chart as
  added.
\<close>

lemma add_chart_unknown_type:
  assumes "0 \<le> slide_index" and "slide_index < int (length (slides st))"
      and "\<forall>m. py_upper U chart_type \<noteq> py_upper U (ChartType_value m)"
  shows "add_chart U st slide_index chart_type data =
           Inr (st\<lparr>slides := (slides st)[nat slide_index :=
                               dict_set (slides st ! nat slide_index) (lit ''chart'') (VDict [])],
                    logged := logged st @
                      [(ERROR, lit ''Unsupported chart type: '' @ chart_type),
                       (INFO, lit ''Added '' @ chart_type @ lit '' chart to slide '' @
                              dec_int slide_index)]\<rparr>)"
proof -
  have "list_index (slides st) slide_index = Inr (nat slide_index)"
    using assms(1,2) by (simp add: list_index_def Let_def)
  moreover have "\<not> int (length (slides st)) \<le> slide_index"
    using assms(2) by linarith
  ultimately show ?thesis
    using generate_chart_unknown [OF assms(3), of data "theme st" "[]" "[]"]
    by (simp add: add_chart_def log_msg_def)
qed

text \<open>
  Claim C4, at the input where the code departs from it: \<open>add_chart(1, "donut")\<close> on the
  sample deck.  \<open>generate_chart\<close> reports the unsupported type and returns the empty
  dictionary, no descriptor; \<open>add_chart\<close> then stores that dictionary under \<open>chart\<close> in
  slide 1, which had no chart, so the deck is not as before, and the layout suggested for
  the slide turns from \<open>bullet_points\<close> to \<open>chart_slide\<close>.
\<close>

theorem add_chart_unknown_type_changes_slide:
  "generate_chart sample_db (lit ''donut'') VNone (theme sample_agent) [] [] =
     Inr ([], [(ERROR, lit ''Unsupported chart type: '' @ lit ''donut'')]) \<and>
   (\<exists>st'. add_chart sample_db sample_agent 1 (lit ''donut'') VNone = Inr st' \<and>
           slides st' \<noteq> slides sample_agent \<and>
           dict_get (slides sample_agent ! 1) (lit ''chart'') = None \<and>
           dict_get (slides st' ! 1) (lit ''chart'') = Some (VDict []) \<and>
           suggest_layout (slides sample_agent ! 1) = lit ''bullet_points'' \<and>
           suggest_layout (slides st' ! 1) = lit ''chart_slide'')"
proof -
  have h: "\<forall>m. py_upper sample_db (lit ''donut'') \<noteq> py_upper sample_db (ChartType_value m)"
  proof
    fix m show "py_upper sample_db (lit ''donut'') \<noteq> py_upper sample_db (ChartType_value m)"
      by (cases m) (simp_all add: py_upper_def upper_cp_def lit_def)
  qed
  have r: "(0::int) \<le> 1" "1 < int (length (slides sample_agent))"
    by (simp_all add: sample_agent_def)
  note a = add_chart_unknown_type [OF r h, of VNone]
  have g: "generate_chart sample_db (lit ''donut'') VNone (theme sample_agent) [] [] =
             Inr ([], [(ERROR, lit ''Unsupported chart type: '' @ lit ''donut'')])"
    by (rule generate_chart_unknown [OF h])
  show ?thesis
    unfolding a g
    by (simp add: sample_agent_def dict_set_def dict_get_def suggest_layout_def
          dict_get_default_def dict_contains_def)
qed

section \<open>Slide statistics\<close>

text \<open>The only exception of \<open>repr\<close> and \<open>str\<close> in this model is the \<open>ValueError\<close> of the digit limit.\<close>

lemma sequenceE_Inl: "sequenceE rs = Inl e \<Longrightarrow> Inl e \<in> set rs"
proof (induction rs)
  case Nil
  then show ?case by simp
next
  case (Cons r rs)
  then show ?case
    by (cases r; cases "sequenceE rs") auto
qed

lemma sequenceE_Inr: "sequenceE (map Inr xs) = Inr xs"
  by (induction xs) simp_all

lemma py_repr_error: "py_repr U v = Inl e \<Longrightarrow> e = ValueError"
proof (induction U v arbitrary: e rule: py_repr.induct)
  case (1 U)
  then show ?case by simp
next
  case (2 U i)
  then show ?case by (simp add: str_int_def split: if_splits)
next
  case (3 U s)
  then show ?case by simp
next
  case (4 U xs)
  from "4.prems" have "sequenceE (map (py_repr U) xs) = Inl e"
    by (cases "sequenceE (map (py_repr U) xs)") simp_all
  then have "Inl e \<in> set (map (py_repr U) xs)"
    by (rule sequenceE_Inl)
  then obtain x where "x \<in> set xs" and "py_repr U x = Inl e"
    by auto
  then show ?case by (rule "4.IH")
next
  case (5 U xs)
  from "5.prems" have "sequenceE (map (py_repr U) xs) = Inl e"
    by (cases "sequenceE (map (py_repr U) xs)") simp_all
  then have "Inl e \<in> set (map (py_repr U) xs)"
    by (rule sequenceE_Inl)
  then obtain x where "x \<in> set xs" and "py_repr U x = Inl e"
    by auto
  then show ?case by (rule "5.IH")
next
  case (6 U kvs)
  let ?f = "\<lambda>kv. bindE (py_repr U (snd kv)) (\<lambda>r. Inr (repr_str U (fst kv) @ lit '': '' @ r))"
  from "6.prems" have "sequenceE (map ?f kvs) = Inl e"
    by (cases "sequenceE (map ?f kvs)") simp_all
  then have "Inl e \<in> set (map ?f kvs)"
    by (rule sequenceE_Inl)
  then obtain kv where kv: "kv \<in> set kvs" and "?f kv = Inl e"
    by auto
  then have "py_repr U (snd kv) = Inl e"
    by (cases "py_repr U (snd kv)") simp_all
  with kv show ?case by (rule "6.IH")
qed

lemma py_str_error: "py_str U v = Inl e \<Longrightarrow> e = ValueError"
proof -
  assume "py_str U v = Inl e"
  then have "py_repr U v = Inl e"
    by (cases v) (simp_all add: py_str_def)
  then show ?thesis by (rule py_repr_error)
qed

lemma content_words_error: "content_words U slide = Inl e \<Longrightarrow> e = ValueError"
proof -
  let ?c = "py_str U (dict_get_default slide (lit ''content'') (VStr []))"
  assume "content_words U slide = Inl e"
  then have "?c = Inl e"
    by (cases ?c) (simp_all add: content_words_def)
  then show ?thesis by (rule py_str_error)
qed

text \<open>
  The loop adds up the word counts; the exceptions it can raise are the \<open>TypeError\<close> of an
  unhashable slide type and the \<open>ValueError\<close> of \<open>str(content)\<close>.
\<close>

lemma stats_loop_total:
  "stats_loop U types tot sl = Inr (types', tot') \<Longrightarrow>
   \<exists>ws. map (content_words U) sl = map Inr ws \<and> tot' = tot + sum_list ws"
proof (induction sl arbitrary: types tot)
  case Nil
  then show ?case by simp
next
  case (Cons s sl)
  from Cons.prems obtain w where w: "content_words U s = Inr w"
    by (cases "content_words U s") (auto simp: Let_def split: if_splits)
  with Cons.prems obtain types1 where "stats_loop U types1 (tot + w) sl = Inr (types', tot')"
    by (auto simp: Let_def split: if_splits)
  from Cons.IH [OF this]
  obtain ws where "map (content_words U) sl = map Inr ws" and "tot' = tot + w + sum_list ws"
    by blast
  with w show ?case
    by (intro exI [of _ "w # ws"]) simp
qed

lemma stats_loop_error:
  "stats_loop U types tot sl = Inl e \<Longrightarrow> e = TypeError \<or> e = ValueError"
proof (induction sl arbitrary: types tot)
  case Nil
  then show ?case by simp
next
  case (Cons s sl)
  show ?case
  proof (cases "content_words U s")
    case (Inl e')
    with Cons.prems content_words_error [OF Inl] show ?thesis
      by (auto simp: Let_def split: if_splits)
  next
    case (Inr w)
    with Cons.prems show ?thesis
      by (auto simp: Let_def split: if_splits dest: Cons.IH)
  qed
qed

text \<open>
  Claim C9.  On the empty list \<open>get_slide_statistics\<close> returns \<open>total_slides = 0\<close> and
  \<open>average_content_length = 0\<close>.  On no list does it raise \<open>ZeroDivisionError\<close>.  Whenever
  it returns, \<open>total_slides\<close> is the number of slides and the average is \<open>0\<close> for no
  slides and otherwise the sum over the slides of the word counts of \<open>str(content)\<close>
  divided by the number of slides.
\<close>

theorem get_slide_statistics_average:
  "get_slide_statistics U [] =
     Inr \<lparr>total_slides = 0, slide_types = [], average_content_length = PyInt 0\<rparr> \<and>
   get_slide_statistics U sl \<noteq> Inl ZeroDivisionError \<and>
   (\<forall>r. get_slide_statistics U sl = Inr r \<longrightarrow>
      total_slides r = int (length sl) \<and>
      (\<exists>ws. map (content_words U) sl = map Inr ws \<and>
            average_content_length r =
              (if sl = [] then PyInt 0
               else PyFloat (of_int (sum_list ws) / of_int (int (length sl))))))"
proof (intro conjI allI impI)
  show "get_slide_statistics U [] =
          Inr \<lparr>total_slides = 0, slide_types = [], average_content_length = PyInt 0\<rparr>"
    by (simp add: get_slide_statistics_def)
next
  show "get_slide_statistics U sl \<noteq> Inl ZeroDivisionError"
  proof (cases "stats_loop U [] 0 sl")
    case (Inl e)
    then have "e = TypeError \<or> e = ValueError" by (rule stats_loop_error)
    with Inl show ?thesis by (auto simp: get_slide_statistics_def Let_def)
  next
    case (Inr r)
    then show ?thesis
      by (cases r) (auto simp: get_slide_statistics_def py_truediv_def Let_def)
  qed
next
  fix r assume r: "get_slide_statistics U sl = Inr r"
  then obtain types tot where loop: "stats_loop U [] 0 sl = Inr (types, tot)"
    by (cases "stats_loop U [] 0 sl") (auto simp: get_slide_statistics_def Let_def)
  from stats_loop_total [OF loop]
  obtain ws where ws: "map (content_words U) sl = map Inr ws" and tot: "tot = sum_list ws"
    by auto
  from r loop show "total_slides r = int (length sl)"
    by (auto simp: get_slide_statistics_def py_truediv_def Let_def split: if_splits)
  from r loop tot have "average_content_length r =
        (if sl = [] then PyInt 0
         else PyFloat (of_int (sum_list ws) / of_int (int (length sl))))"
    by (auto simp: get_slide_statistics_def py_truediv_def Let_def split: if_splits)
  with ws show "\<exists>ws. map (content_words U) sl = map Inr ws \<and>
            average_content_length r =
              (if sl = [] then PyInt 0
               else PyFloat (of_int (sum_list ws) / of_int (int (length sl))))"
    by blast
qed

text \<open>
  The sample deck: the title slide's content prints as five words, the other slide's as
  four, so the average is \<open>9 / 2\<close>.
\<close>

theorem get_slide_statistics_average_witness:
  "map (content_words sample_db) (slides sample_agent) = [Inr 5, Inr 4] \<and>
   (\<exists>r. get_slide_statistics sample_db (slides sample_agent) = Inr r \<and>
        total_slides r = 2 \<and> average_content_length r = PyFloat (9 / 2))"
proof -
  have w: "map (content_words sample_db) (slides sample_agent) = [Inr 5, Inr 4]"
    by (simp add: sample_agent_def content_words_def dict_get_default_def py_str_def lit_def
          split_ws_def repr_str_def repr_quote_def repr_cp_def isspace_def)
  have "\<exists>r. get_slide_statistics sample_db (slides sample_agent) = Inr r"
    using w by (simp add: get_slide_statistics_def sample_agent_def dict_get_default_def
                  py_truediv_def)
  then obtain r where r: "get_slide_statistics sample_db (slides sample_agent) = Inr r"
    by blast
  with get_slide_statistics_average [of sample_db "slides sample_agent"]
  obtain ws where len: "total_slides r = int (length (slides sample_agent))"
    and ws: "map (content_words sample_db) (slides sample_agent) = map Inr ws"
    and avg: "average_content_length r =
           (if slides sample_agent = [] then PyInt 0
            else PyFloat (of_int (sum_list ws) / of_int (int (length (slides sample_agent)))))"
    by blast
  from ws w have "map Inr ws = ([Inr 5, Inr 4] :: (exn + int) list)"
    by simp
  then have "ws = [5, 4]"
    by (auto simp: map_eq_Cons_conv)
  with len avg have "total_slides r = 2 \<and> average_content_length r = PyFloat (9 / 2)"
    by (simp add: sample_agent_def)
  with r w show ?thesis by blast
qed

section \<open>Layouts assigned by \<open>create_from_text\<close>\<close>

lemma catalog_names:
  "map fst load_layouts =
     [lit ''title_slide'', lit ''bullet_points'', lit ''chart_slide'', lit ''two_column'',
      lit ''image_and_text'', lit ''blank'']"
  by (simp add: load_layouts_def)

lemma suggest_layout_range:
  "suggest_layout slide \<in>
     {lit ''title_slide'', lit ''chart_slide'', lit ''two_column'', lit ''image_and_text'',
      lit ''bullet_points''}"
  by (simp add: suggest_layout_def Let_def split: pyval.splits)

lemma suggest_layout_in_catalog: "dict_contains load_layouts (suggest_layout slide)"
proof -
  have "\<forall>l \<in> {lit ''title_slide'', lit ''chart_slide'', lit ''two_column'',
               lit ''image_and_text'', lit ''bullet_points''}. dict_contains load_layouts l"
    by (simp add: dict_contains_def load_layouts_def)
  with suggest_layout_range [of slide] show ?thesis by blast
qed

text \<open>
  Speaker notes are generated without an exception for a slide whose title is a string
  and whose content is a dictionary in which \<open>bullet_points\<close>, if present, is a list of
  strings.
\<close>

lemma notes_points:
  "sequenceE (map (\<lambda>point. bindE (py_str U point) (\<lambda>p. Inr (lit ''  - '' @ p))) (map VStr bs)) =
     Inr (map (\<lambda>b. lit ''  - '' @ b) bs)"
  by (induction bs) (simp_all add: py_str_def)

lemma generate_speaker_notes_ok:
  assumes "dict_get slide (lit ''title'') = Some (VStr t)"
      and "dict_get slide (lit ''content'') = Some (VDict c)"
      and "dict_get c (lit ''bullet_points'') = None \<or>
           (\<exists>bs. dict_get c (lit ''bullet_points'') = Some (VList (map VStr bs)))"
  shows "\<exists>n. generate_speaker_notes U slide = Inr n"
proof -
  have t: "py_str U (VStr t) = Inr t"
    by (simp add: py_str_def)
  have c: "dict_get_default slide (lit ''content'') (VDict []) = VDict c"
    using assms(2) by (simp add: dict_get_default_def dict_get_def)
  from assms(3) show ?thesis
  proof
    assume "dict_get c (lit ''bullet_points'') = None"
    with assms(1) t c show ?thesis
      by (simp add: generate_speaker_notes_def Let_def)
  next
    assume "\<exists>bs. dict_get c (lit ''bullet_points'') = Some (VList (map VStr bs))"
    then obtain bs where bs: "dict_get c (lit ''bullet_points'') = Some (VList (map VStr bs))"
      by blast
    have it: "py_iter (VList (map VStr bs)) = Inr (map VStr bs)"
      by (simp add: py_iter_def)
    from assms(1) c bs show ?thesis
      by (simp add: generate_speaker_notes_def Let_def t it notes_points del: map_map)
  qed
qed

lemma notes_loop_ok:
  assumes "\<forall>s \<in> set sl. \<exists>n. generate_speaker_notes U s = Inr n"
  shows "\<exists>sl'. notes_loop U sl = Inr sl' \<and>
               list_all2 (\<lambda>s s'. \<exists>n. s' = dict_set s (lit ''speaker_notes'') (VStr n)) sl sl'"
  using assms
proof (induction sl)
  case Nil
  show ?case by simp
next
  case (Cons s sl)
  then obtain n sl' where "generate_speaker_notes U s = Inr n" and "notes_loop U sl = Inr sl'"
    and "list_all2 (\<lambda>s s'. \<exists>n. s' = dict_set s (lit ''speaker_notes'') (VStr n)) sl sl'"
    by auto
  then show ?case by auto
qed

text \<open>The shape of the slides that \<open>generate_slides_from_text\<close> returns.\<close>

lemma generated_slides_content:
  assumes "generate_slides_from_text title sections = Inr (sl0, lg)" and "s \<in> set sl0"
  shows "\<exists>t c. dict_get s (lit ''title'') = Some (VStr t) \<and>
               dict_get s (lit ''content'') = Some (VDict c) \<and>
               (dict_get c (lit ''bullet_points'') = None \<or>
                (\<exists>bs. dict_get c (lit ''bullet_points'') = Some (VList (map VStr bs))))"
proof -
  from generate_slides_from_text_eq [of title sections] assms(1)
  obtain sl where sl0: "sl0 =
      [(lit ''id'', VInt 0), (lit ''title'', VStr title), (lit ''type'', VStr (lit ''title'')),
       (lit ''content'',
          VDict [(lit ''heading'', VStr title),
                 (lit ''subheading'', VStr (lit ''Auto-generated Presentation''))]),
       (lit ''layout'', VStr (lit ''title_slide''))] # sl"
    and parsed: "map Inr sl = map (\<lambda>(j, s). parse_section_to_slide s (int j)) (enumerate 1 sections)"
    by auto
  from assms(2) sl0 consider "s = hd sl0" | "s \<in> set sl"
    by auto
  then show ?thesis
  proof cases
    case 1
    then show ?thesis by (simp add: sl0 dict_get_def)
  next
    case 2
    then have "Inr s \<in> set (map Inr sl :: (exn + pydict) list)"
      by simp
    then obtain j sec where "parse_section_to_slide sec (int j) = Inr s"
      unfolding parsed by auto
    then obtain t bs where "s =
        [(lit ''id'', VInt (int j)), (lit ''title'', VStr t), (lit ''type'', VStr (lit ''content'')),
         (lit ''content'',
            VDict [(lit ''heading'', VStr t), (lit ''bullet_points'', VList (map VStr bs))]),
         (lit ''layout'', VStr (lit ''bullet_points''))]"
      unfolding parse_section_to_slide_eq by blast
    then show ?thesis
      by (simp add: dict_get_def) blast
  qed
qed

lemma create_from_text_layouts:
  "\<exists>st'. create_from_text U C st title sections data_source speaker_notes = Inr st' \<and>
         length (slides st') = length sections + 1 \<and>
         (\<forall>s \<in> set (slides st').
            \<exists>s0. dict_get s (lit ''layout'') = Some (VStr (suggest_layout s0)))"
proof -
  from generate_slides_from_text_length [of title sections]
  obtain sl0 lg where gen: "generate_slides_from_text title sections = Inr (sl0, lg)"
    and len: "length sl0 = length sections + 1"
    by blast
  let ?lay = "\<lambda>slide. dict_set slide (lit ''layout'') (VStr (suggest_layout slide))"
  let ?sl1 = "map ?lay sl0"
  have lay1: "\<forall>s \<in> set ?sl1. \<exists>s0. dict_get s (lit ''layout'') = Some (VStr (suggest_layout s0))"
    by (auto simp: dict_get_dict_set)
  have "\<forall>s \<in> set ?sl1. \<exists>n. generate_speaker_notes U s = Inr n"
  proof
    fix s assume "s \<in> set ?sl1"
    then obtain s0 where s0: "s0 \<in> set sl0" and s: "s = ?lay s0"
      by auto
    from generated_slides_content [OF gen s0]
    obtain t c where "dict_get s0 (lit ''title'') = Some (VStr t)"
      and "dict_get s0 (lit ''content'') = Some (VDict c)"
      and bp: "dict_get c (lit ''bullet_points'') = None \<or>
               (\<exists>bs. dict_get c (lit ''bullet_points'') = Some (VList (map VStr bs)))"
      by blast
    then have "dict_get s (lit ''title'') = Some (VStr t)"
      and "dict_get s (lit ''content'') = Some (VDict c)"
      by (simp_all add: s dict_get_dict_set)
    from generate_speaker_notes_ok [OF this bp] show "\<exists>n. generate_speaker_notes U s = Inr n" .
  qed
  from notes_loop_ok [OF this]
  obtain sl2 where n2: "notes_loop U ?sl1 = Inr sl2"
    and rel: "list_all2 (\<lambda>s s'. \<exists>n. s' = dict_set s (lit ''speaker_notes'') (VStr n)) ?sl1 sl2"
    by blast
  from rel have len12: "length ?sl1 = length sl2"
    by (rule list_all2_lengthD)
  then have len2: "length sl2 = length sl0"
    by simp
  have lay2: "\<forall>s \<in> set sl2. \<exists>s0. dict_get s (lit ''layout'') = Some (VStr (suggest_layout s0))"
  proof
    fix s' assume "s' \<in> set sl2"
    then obtain i where i: "i < length sl2" and s': "s' = sl2 ! i"
      by (auto simp: in_set_conv_nth)
    from i len12 have i1: "i < length ?sl1"
      by simp
    from list_all2_nthD [OF rel i1]
    obtain n where n: "sl2 ! i = dict_set (?sl1 ! i) (lit ''speaker_notes'') (VStr n)"
      by blast
    from i1 have "?sl1 ! i \<in> set ?sl1"
      by (rule nth_mem)
    with lay1 obtain s0 where "dict_get (?sl1 ! i) (lit ''layout'') = Some (VStr (suggest_layout s0))"
      by blast
    then have "dict_get s' (lit ''layout'') = Some (VStr (suggest_layout s0))"
      unfolding s' n by (simp add: dict_get_dict_set)
    then show "\<exists>s0. dict_get s' (lit ''layout'') = Some (VStr (suggest_layout s0))"
      by blast
  qed
  define st1 where "st1 = log_msg st INFO (lit ''Creating presentation: '' @ title)"
  define st2 where "st2 = st1\<lparr>metadata := dict_set (metadata st1) (lit ''title'') (VStr title)\<rparr>"
  define st3 where "st3 = st2\<lparr>slides := sl0, logged := logged st2 @ lg\<rparr>"
  define st4 where "st4 = (case data_source of
                        None \<Rightarrow> st3
                      | Some src \<Rightarrow>
                          if src \<noteq> []
                          then (let data = fetch_data C src
                                in log_msg st3 INFO (lit ''Loaded data from '' @ src))
                          else st3)"
  have sl3: "slides st3 = sl0"
    by (simp add: st3_def)
  have sl4: "slides st4 = sl0"
    by (cases data_source) (simp_all add: st4_def sl3 log_msg_def Let_def)
  have unfold: "create_from_text U C st title sections data_source speaker_notes =
      bindE (if speaker_notes
             then agent_generate_speaker_notes U (st4\<lparr>slides := map ?lay (slides st4)\<rparr>)
             else Inr (st4\<lparr>slides := map ?lay (slides st4)\<rparr>))
        (\<lambda>st6. Inr (log_msg st6 INFO
                      (lit ''Created '' @ dec_int (int (length (slides st6))) @ lit '' slides'')))"
    unfolding create_from_text_def Let_def gen st4_def st3_def st2_def st1_def
    by simp
  show ?thesis
  proof (cases speaker_notes)
    case True
    have "create_from_text U C st title sections data_source speaker_notes =
            Inr (log_msg (log_msg (st4\<lparr>slides := sl2\<rparr>) INFO
                            (lit ''Generated speaker notes for all slides'')) INFO
                   (lit ''Created '' @ dec_int (int (length sl2)) @ lit '' slides''))"
      unfolding unfold using True n2
      by (simp add: agent_generate_speaker_notes_def sl4 log_msg_def)
    moreover have "slides (log_msg (log_msg (st4\<lparr>slides := sl2\<rparr>) INFO
                            (lit ''Generated speaker notes for all slides'')) INFO
                   (lit ''Created '' @ dec_int (int (length sl2)) @ lit '' slides'')) = sl2"
      by (simp add: log_msg_def)
    moreover have "length sl2 = length sections + 1"
      using len len2 by simp
    moreover note lay2
    ultimately show ?thesis
      by (intro exI [of _ "log_msg (log_msg (st4\<lparr>slides := sl2\<rparr>) INFO
                            (lit ''Generated speaker notes for all slides'')) INFO
                   (lit ''Created '' @ dec_int (int (length sl2)) @ lit '' slides'')"])
         (simp only: simp_thms)
  next
    case False
    have "create_from_text U C st title sections data_source speaker_notes =
            Inr (log_msg (st4\<lparr>slides := ?sl1\<rparr>) INFO
                   (lit ''Created '' @ dec_int (int (length ?sl1)) @ lit '' slides''))"
      unfolding unfold using False
      by (simp add: sl4 log_msg_def)
    moreover have "slides (log_msg (st4\<lparr>slides := ?sl1\<rparr>) INFO
                   (lit ''Created '' @ dec_int (int (length ?sl1)) @ lit '' slides'')) = ?sl1"
      by (simp add: log_msg_def)
    moreover have "length ?sl1 = length sections + 1"
      using len by simp
    moreover note lay1
    ultimately show ?thesis
      by (intro exI [of _ "log_msg (st4\<lparr>slides := ?sl1\<rparr>) INFO
                   (lit ''Created '' @ dec_int (int (length ?sl1)) @ lit '' slides'')"])
         (simp only: simp_thms)
  qed
qed

text \<open>
  Claim C8.  The Layout Catalog has the six entries \<open>title_slide\<close>, \<open>bullet_points\<close>,
  \<open>chart_slide\<close>, \<open>two_column\<close>, \<open>image_and_text\<close>, \<open>blank\<close>; the name \<open>suggest_layout\<close>
  returns is always a key of it; and \<open>create_from_text\<close> returns without raising a deck of
  one slide more than there are sections in which every slide's \<open>layout\<close> is a key of the
  catalog.
\<close>

theorem create_from_text_layout_in_catalog:
  "map fst load_layouts =
     [lit ''title_slide'', lit ''bullet_points'', lit ''chart_slide'', lit ''two_column'',
      lit ''image_and_text'', lit ''blank''] \<and>
   dict_contains load_layouts (suggest_layout slide) \<and>
   (\<exists>st'. create_from_text U C st title sections data_source speaker_notes = Inr st' \<and>
          length (slides st') = length sections + 1 \<and>
          (\<forall>s \<in> set (slides st').
             \<exists>l. dict_get s (lit ''layout'') = Some (VStr l) \<and> dict_contains load_layouts l))"
proof -
  from create_from_text_layouts [of U C st title sections data_source speaker_notes]
  obtain st' where c: "create_from_text U C st title sections data_source speaker_notes = Inr st'"
    and len: "length (slides st') = length sections + 1"
    and lay: "\<forall>s \<in> set (slides st').
                \<exists>s0. dict_get s (lit ''layout'') = Some (VStr (suggest_layout s0))"
    by blast
  from lay have "\<forall>s \<in> set (slides st').
             \<exists>l. dict_get s (lit ''layout'') = Some (VStr l) \<and> dict_contains load_layouts l"
    using suggest_layout_in_catalog by blast
  with c len catalog_names suggest_layout_in_catalog show ?thesis
    by blast
qed

text \<open>
  \<open>create_from_text("T", ["A"])\<close> with speaker notes on a fresh agent: two slides, with
  the layouts \<open>title_slide\<close> and \<open>bullet_points\<close>.
\<close>

theorem create_from_text_layout_in_catalog_witness:
  "\<exists>st'. create_from_text sample_db no_collaborators (init_agent (lit ''default'') False)
            (lit ''T'') [lit ''A''] None True = Inr st' \<and>
         length (slides st') = 2 \<and>
         (\<forall>s \<in> set (slides st').
            \<exists>l. dict_get s (lit ''layout'') = Some (VStr l) \<and> dict_contains load_layouts l)"
proof -
  from create_from_text_layout_in_catalog
         [of "[]" sample_db no_collaborators "init_agent (lit ''default'') False"
             "lit ''T''" "[lit ''A'']" None True]
  obtain st' where c: "create_from_text sample_db no_collaborators
                         (init_agent (lit ''default'') False) (lit ''T'') [lit ''A''] None True =
                       Inr st'"
    and len: "length (slides st') = length [lit ''A''] + 1"
    and lay: "\<forall>s \<in> set (slides st').
                \<exists>l. dict_get s (lit ''layout'') = Some (VStr l) \<and> dict_contains load_layouts l"
    by blast
  from len have "length (slides st') = 2"
    by simp
  with c lay show ?thesis
    by blast
qed

end
